theory Spec2Isabelle
  imports Main "HOL-Library.Log_Nat"
begin

section \<open>JavaScript values\<close>

text \<open>
  The route handlers of \<^verbatim>\<open>src/backend/index.ts\<close> work on untyped JavaScript values:
  the path parameter \<^verbatim>\<open>req.params.id\<close> is a string, the request body is whatever
  \<^verbatim>\<open>express.json()\<close> parsed, and an entity is an object whose properties are only
  checked by \<^verbatim>\<open>class-validator\<close>. The model therefore keeps values untyped.

  A JavaScript number is an IEEE binary64 value. It is modelled by its exact rational
  value, or one of the three non-finite values; \<open>-0\<close> is identified with \<open>0\<close> (no
  code path of the handlers tells them apart).
\<close>

datatype jsnum = NaN | Fin rat | PInf | NInf

datatype jsval =
    JNull
  | JBool bool
  | JNum jsnum
  | JStr string
  | JDate jsnum \<comment> \<open>a \<^verbatim>\<open>Date\<close> object and its time value in ms; \<open>NaN\<close> is Invalid Date\<close>
  | JArr "jsval list"
  | JObj "(string \<times> jsval) list"

text \<open>An object maps property names to values; a property that is not set reads \<^verbatim>\<open>undefined\<close>.\<close>

type_synonym obj = "string \<rightharpoonup> jsval"

subsection \<open>Rounding to binary64\<close>

function pw :: "rat \<Rightarrow> int \<Rightarrow> rat" where
  "pw b k = (if k \<le> 0 then 1
             else if even k then pw (b * b) (k div 2)
             else b * pw (b * b) (k div 2))"
  by pat_completeness auto
termination
  by (relation "measure (\<lambda>(b, k). nat k)") auto

declare pw.simps [simp del]

definition pow2 :: "int \<Rightarrow> rat" where
  "pow2 k = (if 0 \<le> k then pw 2 k else 1 / pw 2 (- k))"

definition roundHalfEven :: "rat \<Rightarrow> int" where
  "roundHalfEven x =
     (let f = \<lfloor>x\<rfloor>; d = x - of_int f
      in if d < 1 / 2 then f else if 1 / 2 < d then f + 1 else if even f then f else f + 1)"

text \<open>\<open>ilog2 a\<close> is the binary exponent of a positive rational: \<open>2^e \<le> a < 2^(e+1)\<close>.\<close>

definition ilog2 :: "rat \<Rightarrow> int" where
  "ilog2 a = (case quotient_of a of (p, q) \<Rightarrow>
     (let d = bitlen p - bitlen q in if pow2 d \<le> a then d else d - 1))"

text \<open>
  Round to nearest, ties to even, with 53 bits of precision, gradual underflow below
  \<open>2^-1022\<close> and overflow to infinity from \<open>2^1024\<close> on.
\<close>

definition roundDouble :: "rat \<Rightarrow> jsnum" where
  "roundDouble x =
     (if x = 0 then Fin 0
      else let a = \<bar>x\<bar>;
               e = max (ilog2 a) (- 1022);
               u = pow2 (e - 52);
               r = of_int (roundHalfEven (a / u)) * u
           in if pow2 1024 \<le> r then (if 0 < x then PInf else NInf)
              else Fin (if 0 < x then r else - r))"

subsection \<open>\<^verbatim>\<open>Number(string)\<close>\<close>

text \<open>
  \<^verbatim>\<open>Number(req.params.id)\<close> applies the language's StringToNumber: white space is
  trimmed, the empty string is \<open>0\<close>, and the rest must be a StrNumericLiteral
  (\<^verbatim>\<open>Infinity\<close>, a decimal literal with optional sign, fraction and exponent, or an
  unsigned \<^verbatim>\<open>0x\<close>/\<^verbatim>\<open>0o\<close>/\<^verbatim>\<open>0b\<close> literal); anything else is \<open>NaN\<close>.
  A \<open>char\<close> stands for a code unit below \<open>U+0100\<close>; the white space of that range is
  TAB, LF, VT, FF, CR, SP and NBSP.
\<close>

definition StrWhiteSpaceChar :: "char \<Rightarrow> bool" where
  "StrWhiteSpaceChar c = ((of_char c :: nat) \<in> {9, 10, 11, 12, 13, 32, 160})"

definition trimString :: "string \<Rightarrow> string" where
  "trimString s = rev (dropWhile StrWhiteSpaceChar (rev (dropWhile StrWhiteSpaceChar s)))"

definition digitValue :: "char \<Rightarrow> int option" where
  "digitValue c =
     (let n = (of_char c :: nat) in
      if 48 \<le> n \<and> n \<le> 57 then Some (int n - 48)
      else if 97 \<le> n \<and> n \<le> 102 then Some (int n - 87)
      else if 65 \<le> n \<and> n \<le> 70 then Some (int n - 55)
      else None)"

definition isDigitOf :: "int \<Rightarrow> char \<Rightarrow> bool" where
  "isDigitOf b c = (case digitValue c of None \<Rightarrow> False | Some d \<Rightarrow> d < b)"

definition digitsValue :: "int \<Rightarrow> string \<Rightarrow> int" where
  "digitsValue b ds = foldl (\<lambda>acc c. acc * b + (case digitValue c of None \<Rightarrow> 0 | Some d \<Rightarrow> d)) 0 ds"

definition allDigits :: "int \<Rightarrow> string \<Rightarrow> bool" where
  "allDigits b ds = (ds \<noteq> [] \<and> list_all (isDigitOf b) ds)"

definition ExponentPart :: "string \<Rightarrow> int option" where
  "ExponentPart s =
     (case s of
        c # t \<Rightarrow>
          if c = CHR ''+'' then (if allDigits 10 t then Some (digitsValue 10 t) else None)
          else if c = CHR ''-'' then (if allDigits 10 t then Some (- digitsValue 10 t) else None)
          else if allDigits 10 s then Some (digitsValue 10 s) else None
      | [] \<Rightarrow> None)"

definition decimalMV :: "string \<Rightarrow> string \<Rightarrow> int \<Rightarrow> rat" where
  "decimalMV ip fp ex =
     (let m = of_int (digitsValue 10 (ip @ fp)); k = ex - int (length fp)
      in if 0 \<le> k then m * pw 10 k else m / pw 10 (- k))"

definition StrUnsignedDecimalLiteral :: "string \<Rightarrow> jsnum" where
  "StrUnsignedDecimalLiteral s =
     (if s = ''Infinity'' then PInf
      else
        let ip = takeWhile (isDigitOf 10) s;
            r1 = dropWhile (isDigitOf 10) s;
            fp = (case r1 of c # t \<Rightarrow> if c = CHR ''.'' then takeWhile (isDigitOf 10) t else [] | [] \<Rightarrow> []);
            r2 = (case r1 of c # t \<Rightarrow> if c = CHR ''.'' then dropWhile (isDigitOf 10) t else r1 | [] \<Rightarrow> [])
        in if ip = [] \<and> fp = [] then NaN
           else case r2 of
                  [] \<Rightarrow> roundDouble (decimalMV ip fp 0)
                | c # t \<Rightarrow>
                    if c = CHR ''e'' \<or> c = CHR ''E'' then
                      (case ExponentPart t of
                         None \<Rightarrow> NaN
                       | Some ex \<Rightarrow> roundDouble (decimalMV ip fp ex))
                    else NaN)"

definition negate :: "jsnum \<Rightarrow> jsnum" where
  "negate n = (case n of NaN \<Rightarrow> NaN | Fin r \<Rightarrow> Fin (- r) | PInf \<Rightarrow> NInf | NInf \<Rightarrow> PInf)"

definition StrDecimalLiteral :: "string \<Rightarrow> jsnum" where
  "StrDecimalLiteral s =
     (case s of
        c # t \<Rightarrow>
          if c = CHR ''+'' then StrUnsignedDecimalLiteral t
          else if c = CHR ''-'' then negate (StrUnsignedDecimalLiteral t)
          else StrUnsignedDecimalLiteral s
      | [] \<Rightarrow> NaN)"

definition NonDecimalIntegerLiteral :: "string \<Rightarrow> jsnum option" where
  "NonDecimalIntegerLiteral s =
     (case s of
        z # p # ds \<Rightarrow>
          if z \<noteq> CHR ''0'' then None
          else if p = CHR ''x'' \<or> p = CHR ''X'' then
            Some (if allDigits 16 ds then roundDouble (of_int (digitsValue 16 ds)) else NaN)
          else if p = CHR ''o'' \<or> p = CHR ''O'' then
            Some (if allDigits 8 ds then roundDouble (of_int (digitsValue 8 ds)) else NaN)
          else if p = CHR ''b'' \<or> p = CHR ''B'' then
            Some (if allDigits 2 ds then roundDouble (of_int (digitsValue 2 ds)) else NaN)
          else None
      | _ \<Rightarrow> None)"

definition Number :: "string \<Rightarrow> jsnum" where
  "Number s =
     (let t = trimString s in
      if t = [] then Fin 0
      else case NonDecimalIntegerLiteral t of
             Some n \<Rightarrow> n
           | None \<Rightarrow> StrDecimalLiteral t)"

definition isNaN :: "jsnum \<Rightarrow> bool" where
  "isNaN n = (n = NaN)"

text \<open>\<^verbatim>\<open>x <= 0\<close> on numbers: false whenever \<open>x\<close> is \<open>NaN\<close>.\<close>

definition le_zero :: "jsnum \<Rightarrow> bool" where
  "le_zero n = (case n of NaN \<Rightarrow> False | Fin r \<Rightarrow> r \<le> 0 | PInf \<Rightarrow> False | NInf \<Rightarrow> True)"

subsection \<open>Truthiness and the \<^verbatim>\<open>Date\<close> constructor\<close>

definition truthy :: "jsval \<Rightarrow> bool" where
  "truthy v =
     (case v of
        JNull \<Rightarrow> False
      | JBool b \<Rightarrow> b
      | JNum n \<Rightarrow> n \<noteq> NaN \<and> n \<noteq> Fin 0
      | JStr s \<Rightarrow> s \<noteq> []
      | JDate t \<Rightarrow> True
      | JArr xs \<Rightarrow> True
      | JObj kvs \<Rightarrow> True)"

definition TimeClip :: "jsnum \<Rightarrow> jsnum" where
  "TimeClip n =
     (case n of
        Fin r \<Rightarrow>
          if 8640000000000000 < \<bar>r\<bar> then NaN
          else Fin (of_int (if 0 \<le> r then \<lfloor>r\<rfloor> else \<lceil>r\<rceil>))
      | _ \<Rightarrow> NaN)"

text \<open>
  \<^verbatim>\<open>Date.parse\<close> is fixed by the language only for the ISO format and is otherwise
  left to the engine, so the parser is a parameter of the model: \<open>dp v\<close> is the time
  value \<^verbatim>\<open>Date.parse(String(v))\<close>, \<open>NaN\<close> when the text is not recognised as a date.
\<close>

type_synonym date_parser = "jsval \<Rightarrow> jsnum"

definition newDate :: "date_parser \<Rightarrow> jsval \<Rightarrow> jsval" where
  "newDate dp v =
     JDate (case v of
              JNull \<Rightarrow> Fin 0
            | JBool b \<Rightarrow> Fin (if b then 1 else 0)
            | JNum n \<Rightarrow> TimeClip n
            | JDate t \<Rightarrow> t
            | JStr s \<Rightarrow> TimeClip (dp v)
            | JArr xs \<Rightarrow> TimeClip (dp v)
            | JObj kvs \<Rightarrow> TimeClip (dp v))"

section \<open>Entities (\<^verbatim>\<open>database.ts\<close>)\<close>

datatype entity = User | List | Task

text \<open>The property initialisers of the entity classes; only \<^verbatim>\<open>Task\<close> has any.\<close>

definition defaults :: "entity \<Rightarrow> obj" where
  "defaults e =
     (case e of
        User \<Rightarrow> Map.empty
      | List \<Rightarrow> Map.empty
      | Task \<Rightarrow> [''description'' \<mapsto> JStr [],
                 ''dueDate'' \<mapsto> JDate (Fin 0),
                 ''completed'' \<mapsto> JBool False])"

text \<open>
  \<^verbatim>\<open>plainToInstance(cls, plain)\<close> of class-transformer, with no \<^verbatim>\<open>@Type\<close> or
  \<^verbatim>\<open>@Exclude\<close> metadata on the class: a fresh instance, on which every own key of the plain
  object is assigned (a deep copy of its value). The key \<^verbatim>\<open>__proto__\<close> is skipped, and
  so is every key under which the instance has a function, which for these classes are
  the members of \<^verbatim>\<open>Object.prototype\<close>.
\<close>

definition skippedKeys :: "string set" where
  "skippedKeys =
     {''__proto__'', ''constructor'', ''hasOwnProperty'', ''isPrototypeOf'',
      ''propertyIsEnumerable'', ''toLocaleString'', ''toString'', ''valueOf'',
      ''__defineGetter__'', ''__defineSetter__'', ''__lookupGetter__'', ''__lookupSetter__''}"

definition plainToInstance :: "entity \<Rightarrow> obj \<Rightarrow> obj" where
  "plainToInstance e plain = defaults e ++ (plain |` (- skippedKeys))"

subsection \<open>Validation (\<^verbatim>\<open>class-validator\<close> decorators)\<close>

datatype decorator = IsString | IsInt | IsBoolean | IsDate

text \<open>Property, type decorator, and whether \<^verbatim>\<open>@IsOptional()\<close> is present, in declaration order.\<close>

definition validationMetadata :: "entity \<Rightarrow> (string \<times> decorator \<times> bool) list" where
  "validationMetadata e =
     (case e of
        User \<Rightarrow> [(''name'', IsString, False)]
      | List \<Rightarrow> [(''userId'', IsInt, False), (''name'', IsString, False)]
      | Task \<Rightarrow> [(''listId'', IsInt, False),
                 (''text'', IsString, False),
                 (''description'', IsString, True),
                 (''dueDate'', IsDate, True),
                 (''completed'', IsBoolean, True)])"

definition isInteger :: "rat \<Rightarrow> bool" where
  "isInteger r = (of_int \<lfloor>r\<rfloor> = r)"

definition satisfies :: "decorator \<Rightarrow> jsval option \<Rightarrow> bool" where
  "satisfies d v =
     (case d of
        IsString \<Rightarrow> (case v of Some (JStr s) \<Rightarrow> True | _ \<Rightarrow> False)
      | IsInt \<Rightarrow> (case v of Some (JNum (Fin r)) \<Rightarrow> isInteger r | _ \<Rightarrow> False)
      | IsBoolean \<Rightarrow> (case v of Some (JBool b) \<Rightarrow> True | _ \<Rightarrow> False)
      | IsDate \<Rightarrow> (case v of Some (JDate t) \<Rightarrow> \<not> isNaN t | _ \<Rightarrow> False))"

definition constraintOf :: "decorator \<Rightarrow> string \<Rightarrow> string \<times> string" where
  "constraintOf d p =
     (case d of
        IsString \<Rightarrow> (''isString'', p @ '' must be a string'')
      | IsInt \<Rightarrow> (''isInt'', p @ '' must be an integer number'')
      | IsBoolean \<Rightarrow> (''isBoolean'', p @ '' must be a boolean value'')
      | IsDate \<Rightarrow> (''isDate'', p @ '' must be a Date instance''))"

record ValidationError =
  property :: string
  constraints :: "(string \<times> string) list"

text \<open>\<^verbatim>\<open>@IsOptional()\<close> skips the property's validators when its value is \<^verbatim>\<open>null\<close> or \<^verbatim>\<open>undefined\<close>.\<close>

definition validateProperty :: "obj \<Rightarrow> string \<times> decorator \<times> bool \<Rightarrow> ValidationError list" where
  "validateProperty ent m =
     (case m of (p, d, optional) \<Rightarrow>
        if optional \<and> (ent p = None \<or> ent p = Some JNull) then []
        else if satisfies d (ent p) then []
        else [\<lparr>property = p, constraints = [constraintOf d p]\<rparr>])"

definition validate :: "entity \<Rightarrow> obj \<Rightarrow> ValidationError list" where
  "validate e ent = concat (map (validateProperty ent) (validationMetadata e))"

section \<open>Responses\<close>

datatype payload =
    NoBody
  | Message string
  | Entity obj
  | EntityList "obj list"
  | Constraints "(string \<times> string) list list"

record response =
  status :: nat
  payload :: payload

text \<open>
  \<^verbatim>\<open>validateEntity\<close>: the 400 response it has sent, or nothing (\<^verbatim>\<open>null\<close>) when the entity
  is valid.
\<close>

definition validateEntity :: "entity \<Rightarrow> obj \<Rightarrow> response option" where
  "validateEntity e ent =
     (let errors = validate e ent in
      if 0 < length errors then Some \<lparr>status = 400, payload = Constraints (map constraints errors)\<rparr>
      else None)"

text \<open>\<^verbatim>\<open>validateIdParam\<close>: the 400 response it has sent, or nothing when it calls \<^verbatim>\<open>next()\<close>.\<close>

definition validateIdParam :: "string \<Rightarrow> response option" where
  "validateIdParam param =
     (let ident = Number param in
      if isNaN ident \<or> le_zero ident then
        Some \<lparr>status = 400, payload = Message ''Invalid ID parameter''\<rparr>
      else None)"

section \<open>The store behind the TypeORM repositories\<close>

text \<open>
  The handlers reach the database only through \<^verbatim>\<open>AppDataSource.getRepository(E)\<close> and
  its methods \<^verbatim>\<open>find\<close>, \<^verbatim>\<open>findOneBy\<close>, \<^verbatim>\<open>merge\<close>, \<^verbatim>\<open>save\<close> and
  \<^verbatim>\<open>delete\<close>. The store holds the rows of the three tables of \<^verbatim>\<open>setup.sql\<close> as the
  repositories hydrate them (objects with the entity's property names), the AUTO_INCREMENT
  counter of each table, and the list of repository calls issued so far, which is how
  "the store is not accessed" is stated. Its last field is the server's conversion of
  values of another type than the column's, described with \<^verbatim>\<open>save\<close> below.
\<close>

datatype query =
    Find entity
  | FindOneBy entity jsnum
  | FindWhere entity string jsnum
  | Save entity obj
  | Delete entity jsnum

datatype sqltype = SqlInt | SqlVarchar nat | SqlText | SqlDateTime | SqlBoolean

record store =
  rows :: "entity \<Rightarrow> obj list"
  nextId :: "entity \<Rightarrow> int"
  queries :: "query list"
  converts :: "sqltype \<Rightarrow> jsval \<Rightarrow> jsval option"

datatype store_error = QueryFailedError

definition issue :: "query \<Rightarrow> store \<Rightarrow> store" where
  "issue q st = st\<lparr>queries := queries st @ [q]\<rparr>"

definition hasId :: "rat \<Rightarrow> obj \<Rightarrow> bool" where
  "hasId k r = (r ''id'' = Some (JNum (Fin k)))"

definition hasValue :: "string \<Rightarrow> rat \<Rightarrow> obj \<Rightarrow> bool" where
  "hasValue col k r = (r col = Some (JNum (Fin k)))"

text \<open>
  A number reaches the SQL text as the driver prints it. A finite number is a numeric
  literal that is compared with the column; \<^verbatim>\<open>Infinity\<close> and \<^verbatim>\<open>NaN\<close> are not
  literals of SQL, and the query fails.
\<close>

definition repo_find :: "entity \<Rightarrow> store \<Rightarrow> (store_error + obj list) \<times> store" where
  "repo_find e st = (Inr (rows st e), issue (Find e) st)"

definition repo_findOneBy :: "entity \<Rightarrow> jsnum \<Rightarrow> store \<Rightarrow> (store_error + obj option) \<times> store" where
  "repo_findOneBy e n st =
     (case n of
        Fin k \<Rightarrow> Inr (find (hasId k) (rows st e))
      | _ \<Rightarrow> Inl QueryFailedError,
      issue (FindOneBy e n) st)"

definition repo_findWhere ::
  "entity \<Rightarrow> string \<Rightarrow> jsnum \<Rightarrow> store \<Rightarrow> (store_error + obj list) \<times> store" where
  "repo_findWhere e col n st =
     (case n of
        Fin k \<Rightarrow> Inr (filter (hasValue col k) (rows st e))
      | _ \<Rightarrow> Inl QueryFailedError,
      issue (FindWhere e col n) st)"

subsection \<open>\<^verbatim>\<open>delete\<close>, with the cascades of the schema\<close>

text \<open>
  \<^verbatim>\<open>lists.user_id\<close> and \<^verbatim>\<open>tasks.list_id\<close> are declared \<^verbatim>\<open>ON DELETE CASCADE\<close>:
  the rows that refer to a deleted row go with it.
\<close>

definition refersTo :: "string \<Rightarrow> obj list \<Rightarrow> obj \<Rightarrow> bool" where
  "refersTo col gone r =
     (case r col of
        None \<Rightarrow> False
      | Some JNull \<Rightarrow> False
      | Some v \<Rightarrow> list_ex (\<lambda>p. p ''id'' = Some v) gone)"

definition deleteTasks :: "(obj \<Rightarrow> bool) \<Rightarrow> (entity \<Rightarrow> obj list) \<Rightarrow> (entity \<Rightarrow> obj list)" where
  "deleteTasks P rws = rws(Task := filter (\<lambda>r. \<not> P r) (rws Task))"

definition deleteLists :: "(obj \<Rightarrow> bool) \<Rightarrow> (entity \<Rightarrow> obj list) \<Rightarrow> (entity \<Rightarrow> obj list)" where
  "deleteLists P rws =
     deleteTasks (refersTo ''listId'' (filter P (rws List)))
       (rws(List := filter (\<lambda>r. \<not> P r) (rws List)))"

definition deleteUsers :: "(obj \<Rightarrow> bool) \<Rightarrow> (entity \<Rightarrow> obj list) \<Rightarrow> (entity \<Rightarrow> obj list)" where
  "deleteUsers P rws =
     deleteLists (refersTo ''userId'' (filter P (rws User)))
       (rws(User := filter (\<lambda>r. \<not> P r) (rws User)))"

definition deleteRows :: "entity \<Rightarrow> (obj \<Rightarrow> bool) \<Rightarrow> (entity \<Rightarrow> obj list) \<Rightarrow> (entity \<Rightarrow> obj list)" where
  "deleteRows e P rws =
     (case e of User \<Rightarrow> deleteUsers P rws | List \<Rightarrow> deleteLists P rws | Task \<Rightarrow> deleteTasks P rws)"

text \<open>The result is \<^verbatim>\<open>DeleteResult.affected\<close>: the rows removed from the table itself.\<close>

definition repo_delete :: "entity \<Rightarrow> jsnum \<Rightarrow> store \<Rightarrow> (store_error + nat) \<times> store" where
  "repo_delete e n st =
     (case n of
        Fin k \<Rightarrow>
          (Inr (length (filter (hasId k) (rows st e))),
           (issue (Delete e n) st)\<lparr>rows := deleteRows e (hasId k) (rows st)\<rparr>)
      | _ \<Rightarrow> (Inl QueryFailedError, issue (Delete e n) st))"

subsection \<open>\<^verbatim>\<open>merge\<close>\<close>

text \<open>The properties that are columns of the entity, the generated primary key first.\<close>

definition columns :: "entity \<Rightarrow> string list" where
  "columns e =
     (case e of
        User \<Rightarrow> [''id'', ''name'']
      | List \<Rightarrow> [''id'', ''userId'', ''name'']
      | Task \<Rightarrow> [''id'', ''listId'', ''text'', ''description'', ''dueDate'', ''completed''])"

text \<open>
  \<^verbatim>\<open>repository.merge(entity, body)\<close> copies onto the entity every column property of
  the body whose value is not \<^verbatim>\<open>undefined\<close>; the primary key is one of them. Other
  properties of the body are ignored.
\<close>

definition repo_merge :: "entity \<Rightarrow> obj \<Rightarrow> obj \<Rightarrow> obj" where
  "repo_merge e ent body = ent ++ (body |` set (columns e))"

subsection \<open>\<^verbatim>\<open>save\<close>\<close>

text \<open>
  The columns of \<^verbatim>\<open>setup.sql\<close> under their property names: type, whether the column
  is \<^verbatim>\<open>NOT NULL\<close>, and its \<^verbatim>\<open>DEFAULT\<close> if it declares one.
\<close>

definition tableColumns :: "entity \<Rightarrow> (string \<times> sqltype \<times> bool \<times> jsval option) list" where
  "tableColumns e =
     (case e of
        User \<Rightarrow> [(''name'', SqlVarchar 100, True, None)]
      | List \<Rightarrow> [(''userId'', SqlInt, True, None), (''name'', SqlVarchar 100, True, None)]
      | Task \<Rightarrow> [(''listId'', SqlInt, True, None),
                 (''text'', SqlVarchar 255, True, None),
                 (''description'', SqlText, False, None),
                 (''dueDate'', SqlDateTime, False, None),
                 (''completed'', SqlBoolean, False, Some (JBool False))])"

definition foreignKey :: "entity \<Rightarrow> (string \<times> entity) option" where
  "foreignKey e =
     (case e of User \<Rightarrow> None | List \<Rightarrow> Some (''userId'', User) | Task \<Rightarrow> Some (''listId'', List))"

definition inIntRange :: "rat \<Rightarrow> bool" where
  "inIntRange r = (isInteger r \<and> - 2147483648 \<le> r \<and> r \<le> 2147483647)"

definition utf8Length :: "string \<Rightarrow> nat" where
  "utf8Length s = sum_list (map (\<lambda>c. if (of_char c :: nat) < 128 then 1 else 2) s)"

text \<open>
  The time values that \<^verbatim>\<open>DATETIME\<close> holds whatever the time zone of the process: from
  1000-01-02 to 9999-12-30 UTC. The column has no fractional seconds, and MariaDB cuts
  them off. The driver writes a \<^verbatim>\<open>Date\<close> as local time and reads it back as local
  time; the time zone is taken to have a fixed offset, so that the time value read is
  the one written, cut to whole seconds.
\<close>

definition inDateTimeRange :: "rat \<Rightarrow> bool" where
  "inDateTimeRange t = (- 30610137600000 \<le> t \<and> t \<le> 253402214399999)"

definition wholeSeconds :: "rat \<Rightarrow> rat" where
  "wholeSeconds t = 1000 * of_int \<lfloor>t / 1000\<rfloor>"

text \<open>What a column of each type can hold.\<close>

definition fitsColumn :: "sqltype \<Rightarrow> jsval \<Rightarrow> bool" where
  "fitsColumn ty w =
     (case ty of
        SqlInt \<Rightarrow> (case w of JNum (Fin r) \<Rightarrow> inIntRange r | _ \<Rightarrow> False)
      | SqlVarchar n \<Rightarrow> (case w of JStr s \<Rightarrow> length s \<le> n | _ \<Rightarrow> False)
      | SqlText \<Rightarrow> (case w of JStr s \<Rightarrow> utf8Length s \<le> 65535 | _ \<Rightarrow> False)
      | SqlDateTime \<Rightarrow> (case w of JDate (Fin t) \<Rightarrow> True | _ \<Rightarrow> False)
      | SqlBoolean \<Rightarrow> (case w of JBool b \<Rightarrow> True | _ \<Rightarrow> False))"

text \<open>
  \<^verbatim>\<open>MysqlDriver.preparePersistentValue\<close> of TypeORM, for a value that is neither
  \<^verbatim>\<open>null\<close> nor \<^verbatim>\<open>undefined\<close>: a boolean column receives \<^verbatim>\<open>value === true\<close>, a
  datetime column receives \<^verbatim>\<open>new Date(value)\<close> when the value is a string, every other
  value is passed on as it is.
\<close>

definition preparePersistentValue :: "date_parser \<Rightarrow> sqltype \<Rightarrow> jsval \<Rightarrow> jsval" where
  "preparePersistentValue dp ty v =
     (case ty of
        SqlBoolean \<Rightarrow> JBool (v = JBool True)
      | SqlDateTime \<Rightarrow> (case v of JStr s \<Rightarrow> newDate dp v | _ \<Rightarrow> v)
      | _ \<Rightarrow> v)"

text \<open>The decimal text of an integer, and the integer of a decimal text.\<close>

function decimalDigits :: "nat \<Rightarrow> string" where
  "decimalDigits n =
     (if n < 10 then [''0123456789'' ! n]
      else decimalDigits (n div 10) @ [''0123456789'' ! (n mod 10)])"
  by pat_completeness auto
termination
  by (relation "measure (\<lambda>n. n)") auto

declare decimalDigits.simps [simp del]

definition integerText :: "rat \<Rightarrow> string" where
  "integerText r = (if r < 0 then CHR ''-'' # decimalDigits (nat (- \<lfloor>r\<rfloor>)) else decimalDigits (nat \<lfloor>r\<rfloor>))"

definition integerLiteral :: "string \<Rightarrow> int option" where
  "integerLiteral s =
     (case s of
        c # t \<Rightarrow>
          if c = CHR ''-'' then (if allDigits 10 t then Some (- digitsValue 10 t) else None)
          else if allDigits 10 s then Some (digitsValue 10 s) else None
      | [] \<Rightarrow> None)"

text \<open>
  A value of another type than the column's reaches the server as the literal the driver
  prints for it, and the server converts it. The conversions modelled are the ones that
  do not depend on the server's settings: a boolean is \<open>1\<close> or \<open>0\<close>, a text of decimal
  digits is that integer, an integer that JavaScript prints exactly is its decimal text,
  and the result is stored when the column holds it. For every other value (an integer
  outside the column's range, a fraction for an integer column, a text longer than the
  column, a date outside the range above, an array or an object, ...) the store carries
  the answer of the server in its field \<open>converts\<close>: the value stored, or nothing when
  the statement fails, as it does in strict mode. A value the column cannot hold is not
  accepted from it.
\<close>

definition convertedByServer :: "store \<Rightarrow> sqltype \<Rightarrow> bool \<Rightarrow> jsval \<Rightarrow> jsval option" where
  "convertedByServer st ty notNull v =
     (case converts st ty v of
        None \<Rightarrow> None
      | Some w \<Rightarrow> if (w = JNull \<and> \<not> notNull) \<or> fitsColumn ty w then Some w else None)"

definition asInteger :: "jsval \<Rightarrow> rat option" where
  "asInteger v =
     (case v of
        JNum (Fin r) \<Rightarrow> if isInteger r then Some r else None
      | JBool b \<Rightarrow> Some (if b then 1 else 0)
      | JStr s \<Rightarrow> map_option of_int (integerLiteral s)
      | _ \<Rightarrow> None)"

definition asText :: "jsval \<Rightarrow> string option" where
  "asText v =
     (case v of
        JStr s \<Rightarrow> Some s
      | JNum (Fin r) \<Rightarrow>
          if isInteger r \<and> \<bar>r\<bar> \<le> 9007199254740991 then Some (integerText r) else None
      | JBool b \<Rightarrow> Some (if b then ''1'' else ''0'')
      | _ \<Rightarrow> None)"

text \<open>
  What the column stores when it is assigned the prepared value \<open>v\<close>, or nothing when
  the statement fails. An Invalid Date is printed by the driver as \<^verbatim>\<open>NULL\<close>.
\<close>

definition assign :: "store \<Rightarrow> sqltype \<Rightarrow> bool \<Rightarrow> jsval \<Rightarrow> jsval option" where
  "assign st ty notNull v =
     (case ty of
        SqlInt \<Rightarrow>
          (case asInteger v of
             Some r \<Rightarrow>
               if inIntRange r then Some (JNum (Fin r)) else convertedByServer st ty notNull v
           | None \<Rightarrow> convertedByServer st ty notNull v)
      | SqlVarchar n \<Rightarrow>
          (case asText v of
             Some s \<Rightarrow> if length s \<le> n then Some (JStr s) else convertedByServer st ty notNull v
           | None \<Rightarrow> convertedByServer st ty notNull v)
      | SqlText \<Rightarrow>
          (case asText v of
             Some s \<Rightarrow>
               if utf8Length s \<le> 65535 then Some (JStr s) else convertedByServer st ty notNull v
           | None \<Rightarrow> convertedByServer st ty notNull v)
      | SqlDateTime \<Rightarrow>
          (case v of
             JDate (Fin t) \<Rightarrow>
               if inDateTimeRange t then Some (JDate (Fin (wholeSeconds t)))
               else convertedByServer st ty notNull v
           | JDate other \<Rightarrow> if notNull then None else Some JNull
           | _ \<Rightarrow> convertedByServer st ty notNull v)
      | SqlBoolean \<Rightarrow>
          (case v of
             JBool b \<Rightarrow> Some v
           | _ \<Rightarrow> convertedByServer st ty notNull v))"

text \<open>
  The value of one column of the row that \<^verbatim>\<open>save\<close> writes, or nothing when the
  statement fails. On insert (\<open>old = None\<close>) an \<^verbatim>\<open>undefined\<close> property takes the
  column's default. On update (\<open>old\<close> is the column of the row found) a property that is
  \<^verbatim>\<open>undefined\<close> or equal to the value loaded is not written. \<^verbatim>\<open>null\<close> is \<^verbatim>\<open>NULL\<close>.
\<close>

definition columnValue ::
  "store \<Rightarrow> date_parser \<Rightarrow> sqltype \<Rightarrow> bool \<Rightarrow> jsval option \<Rightarrow> jsval option option \<Rightarrow>
   jsval option \<Rightarrow> jsval option" where
  "columnValue st dp ty notNull dflt old v =
     (case v of
        None \<Rightarrow>
          (case old of
             Some kept \<Rightarrow> Some (case kept of None \<Rightarrow> JNull | Some w \<Rightarrow> w)
           | None \<Rightarrow>
               (case dflt of
                  Some d \<Rightarrow> Some d
                | None \<Rightarrow> if notNull then None else Some JNull))
      | Some w \<Rightarrow>
          if old = Some (Some w) then Some w
          else if w = JNull then (if notNull then None else Some JNull)
          else assign st ty notNull (preparePersistentValue dp ty w))"

fun buildRow ::
  "store \<Rightarrow> date_parser \<Rightarrow> obj option \<Rightarrow> (string \<times> sqltype \<times> bool \<times> jsval option) list \<Rightarrow>
   obj \<Rightarrow> obj option" where
  "buildRow st dp old [] ent = Some Map.empty"
| "buildRow st dp old ((c, ty, notNull, dflt) # cs) ent =
     (case columnValue st dp ty notNull dflt (map_option (\<lambda>r. r c) old) (ent c) of
        None \<Rightarrow> None
      | Some v \<Rightarrow>
          (case buildRow st dp old cs ent of
             None \<Rightarrow> None
           | Some r \<Rightarrow> Some (r(c \<mapsto> v))))"

definition fkHolds :: "entity \<Rightarrow> obj \<Rightarrow> (entity \<Rightarrow> obj list) \<Rightarrow> bool" where
  "fkHolds e row rws =
     (case foreignKey e of
        None \<Rightarrow> True
      | Some (c, parent) \<Rightarrow> list_ex (\<lambda>p. p ''id'' = row c) (rws parent))"

definition withId :: "obj \<Rightarrow> rat \<Rightarrow> obj" where
  "withId r k = r(''id'' \<mapsto> JNum (Fin k))"

definition insertGenerated :: "entity \<Rightarrow> obj \<Rightarrow> obj \<Rightarrow> store \<Rightarrow> (store_error + obj) \<times> store" where
  "insertGenerated e ent row st =
     (let k = of_int (nextId st e) in
      (Inr (withId ent k),
       st\<lparr>rows := (rows st)(e := rows st e @ [withId row k]),
          nextId := (nextId st)(e := nextId st e + 1)\<rparr>))"

text \<open>An \<^verbatim>\<open>INSERT\<close>: with the key the server generates, or with the key \<open>k\<close> given.\<close>

definition insertRow ::
  "date_parser \<Rightarrow> entity \<Rightarrow> obj \<Rightarrow> rat option \<Rightarrow> store \<Rightarrow> store \<Rightarrow> (store_error + obj) \<times> store" where
  "insertRow dp e ent key st st' =
     (case buildRow st dp None (tableColumns e) ent of
        None \<Rightarrow> (Inl QueryFailedError, st')
      | Some row \<Rightarrow>
          if \<not> fkHolds e row (rows st) then (Inl QueryFailedError, st')
          else
            (case key of
               None \<Rightarrow> insertGenerated e ent row st'
             | Some k \<Rightarrow>
                 if k = 0 then insertGenerated e ent row st'
                 else
                   (Inr (withId ent k),
                    st'\<lparr>rows := (rows st)(e := rows st e @ [withId row k]),
                        nextId := (nextId st)(e := max (nextId st e) (\<lfloor>k\<rfloor> + 1))\<rparr>)))"

text \<open>An \<^verbatim>\<open>UPDATE\<close> of the row with key \<open>k\<close>, which was loaded as \<open>old\<close>.\<close>

definition updateRow ::
  "date_parser \<Rightarrow> entity \<Rightarrow> obj \<Rightarrow> rat \<Rightarrow> obj \<Rightarrow> store \<Rightarrow> store \<Rightarrow> (store_error + obj) \<times> store" where
  "updateRow dp e ent k old st st' =
     (case buildRow st dp (Some old) (tableColumns e) ent of
        None \<Rightarrow> (Inl QueryFailedError, st')
      | Some row \<Rightarrow>
          if \<not> fkHolds e row (rows st) then (Inl QueryFailedError, st')
          else
            (Inr ent,
             st'\<lparr>rows := (rows st)(e := map (\<lambda>r. if hasId k r then withId row k else r) (rows st e))\<rparr>))"

text \<open>
  \<^verbatim>\<open>repository.save(entity)\<close>. An entity without primary key is inserted and receives
  the generated key. An entity that carries a primary key is looked up first: the row
  with that key is updated if there is one, and a row with that key is inserted if
  there is none (key \<open>0\<close> asks the server for a generated key). A key that is not a
  number, or not an integer, equals the key of no row loaded, so it is inserted too, as
  the integer the server converts it to, which fails if a row has that key. The entity
  is returned with the key of the row; properties that are not columns stay on it and
  are not stored.
\<close>

definition repo_save :: "date_parser \<Rightarrow> entity \<Rightarrow> obj \<Rightarrow> store \<Rightarrow> (store_error + obj) \<times> store" where
  "repo_save dp e ent st =
     (let st' = issue (Save e ent) st in
      case ent ''id'' of
        None \<Rightarrow> insertRow dp e ent None st st'
      | Some JNull \<Rightarrow> insertRow dp e ent None st st'
      | Some v \<Rightarrow>
          (case assign st SqlInt True v of
             Some (JNum (Fin k)) \<Rightarrow>
               (case find (hasId k) (rows st e) of
                  Some old \<Rightarrow>
                    if v = JNum (Fin k) then updateRow dp e ent k old st st'
                    else (Inl QueryFailedError, st')
                | None \<Rightarrow> insertRow dp e ent (Some k) st st')
           | _ \<Rightarrow> (Inl QueryFailedError, st')))"

section \<open>The route handlers (\<^verbatim>\<open>index.ts\<close>)\<close>

text \<open>
  A handler takes the store and returns the response it sends and the store it leaves.
  The request body is the JSON object that \<^verbatim>\<open>express.json()\<close> put in \<^verbatim>\<open>req.body\<close>.
  An exception inside the \<^verbatim>\<open>try\<close> block (here: a failed query) is caught and answered
  with 500; \<^verbatim>\<open>res.json\<close> without \<^verbatim>\<open>res.status\<close> answers 200.
\<close>

definition respond :: "nat \<Rightarrow> payload \<Rightarrow> response" where
  "respond code p = \<lparr>status = code, payload = p\<rparr>"

definition invalidId :: response where
  "invalidId = respond 400 (Message ''Invalid ID parameter'')"

subsection \<open>Users\<close>

definition get_users :: "store \<Rightarrow> response \<times> store" where
  "get_users st =
     (case repo_find User st of
        (Inl err, st') \<Rightarrow> (respond 500 (Message ''Error fetching users''), st')
      | (Inr users, st') \<Rightarrow> (respond 200 (EntityList users), st'))"

definition get_users_id :: "string \<Rightarrow> store \<Rightarrow> response \<times> store" where
  "get_users_id param st =
     (case repo_findOneBy User (Number param) st of
        (Inl err, st') \<Rightarrow> (respond 500 (Message ''Error fetching user''), st')
      | (Inr None, st') \<Rightarrow> (respond 404 (Message ''User not found''), st')
      | (Inr (Some user), st') \<Rightarrow> (respond 200 (Entity user), st'))"

definition post_users :: "date_parser \<Rightarrow> obj \<Rightarrow> store \<Rightarrow> response \<times> store" where
  "post_users dp body st =
     (let newUser = plainToInstance User body in
      case validateEntity User newUser of
        Some res \<Rightarrow> (res, st)
      | None \<Rightarrow>
          (case repo_save dp User newUser st of
             (Inl err, st') \<Rightarrow> (respond 500 (Message ''Error creating user''), st')
           | (Inr savedUser, st') \<Rightarrow> (respond 201 (Entity savedUser), st')))"

definition put_users_id :: "date_parser \<Rightarrow> string \<Rightarrow> obj \<Rightarrow> store \<Rightarrow> response \<times> store" where
  "put_users_id dp param body st =
     (case repo_findOneBy User (Number param) st of
        (Inl err, st') \<Rightarrow> (respond 500 (Message ''Error updating user''), st')
      | (Inr None, st') \<Rightarrow> (respond 404 (Message ''User not found''), st')
      | (Inr (Some user), st') \<Rightarrow>
          (let updatedUser = repo_merge User user body in
           case validateEntity User (plainToInstance User updatedUser) of
             Some res \<Rightarrow> (res, st')
           | None \<Rightarrow>
               (case repo_save dp User updatedUser st' of
                  (Inl err, st'') \<Rightarrow> (respond 500 (Message ''Error updating user''), st'')
                | (Inr result, st'') \<Rightarrow> (respond 200 (Entity result), st''))))"

definition delete_users_id :: "string \<Rightarrow> store \<Rightarrow> response \<times> store" where
  "delete_users_id param st =
     (case repo_delete User (Number param) st of
        (Inl err, st') \<Rightarrow> (respond 500 (Message ''Error deleting user''), st')
      | (Inr affected, st') \<Rightarrow>
          if affected = 0 then (respond 404 (Message ''User not found''), st')
          else (respond 204 NoBody, st'))"

subsection \<open>Lists\<close>

definition get_lists_user_id :: "string \<Rightarrow> store \<Rightarrow> response \<times> store" where
  "get_lists_user_id param st =
     (let userId = Number param in
      case repo_findWhere List ''userId'' userId st of
        (Inl err, st') \<Rightarrow> (respond 500 (Message ''Error fetching lists''), st')
      | (Inr lists', st') \<Rightarrow>
          if length lists' = 0 then (respond 404 (Message ''No lists found for this user''), st')
          else (respond 200 (EntityList lists'), st'))"

definition get_lists_id :: "string \<Rightarrow> store \<Rightarrow> response \<times> store" where
  "get_lists_id param st =
     (case repo_findOneBy List (Number param) st of
        (Inl err, st') \<Rightarrow> (respond 500 (Message ''Error fetching list''), st')
      | (Inr None, st') \<Rightarrow> (respond 404 (Message ''List not found''), st')
      | (Inr (Some lst), st') \<Rightarrow> (respond 200 (Entity lst), st'))"

definition post_lists :: "date_parser \<Rightarrow> obj \<Rightarrow> store \<Rightarrow> response \<times> store" where
  "post_lists dp body st =
     (let newList = plainToInstance List body in
      case validateEntity List newList of
        Some res \<Rightarrow> (res, st)
      | None \<Rightarrow>
          (case repo_save dp List newList st of
             (Inl err, st') \<Rightarrow> (respond 500 (Message ''Error creating list''), st')
           | (Inr savedList, st') \<Rightarrow> (respond 201 (Entity savedList), st')))"

definition put_lists_id :: "date_parser \<Rightarrow> string \<Rightarrow> obj \<Rightarrow> store \<Rightarrow> response \<times> store" where
  "put_lists_id dp param body st =
     (case repo_findOneBy List (Number param) st of
        (Inl err, st') \<Rightarrow> (respond 500 (Message ''Error updating list''), st')
      | (Inr None, st') \<Rightarrow> (respond 404 (Message ''List not found''), st')
      | (Inr (Some lst), st') \<Rightarrow>
          (let updatedList = repo_merge List lst body in
           case validateEntity List (plainToInstance List updatedList) of
             Some res \<Rightarrow> (res, st')
           | None \<Rightarrow>
               (case repo_save dp List updatedList st' of
                  (Inl err, st'') \<Rightarrow> (respond 500 (Message ''Error updating list''), st'')
                | (Inr result, st'') \<Rightarrow> (respond 200 (Entity result), st''))))"

definition delete_lists_id :: "string \<Rightarrow> store \<Rightarrow> response \<times> store" where
  "delete_lists_id param st =
     (case repo_delete List (Number param) st of
        (Inl err, st') \<Rightarrow> (respond 500 (Message ''Error deleting list''), st')
      | (Inr affected, st') \<Rightarrow>
          if affected = 0 then (respond 404 (Message ''List not found''), st')
          else (respond 204 NoBody, st'))"

subsection \<open>Tasks\<close>

definition get_tasks_list_id :: "string \<Rightarrow> store \<Rightarrow> response \<times> store" where
  "get_tasks_list_id param st =
     (let listId = Number param in
      case repo_findWhere Task ''listId'' listId st of
        (Inl err, st') \<Rightarrow> (respond 500 (Message ''Error fetching lists''), st')
      | (Inr lists', st') \<Rightarrow>
          if length lists' = 0 then (respond 404 (Message ''No lists found for this user''), st')
          else (respond 200 (EntityList lists'), st'))"

definition get_tasks_id :: "string \<Rightarrow> store \<Rightarrow> response \<times> store" where
  "get_tasks_id param st =
     (case repo_findOneBy Task (Number param) st of
        (Inl err, st') \<Rightarrow> (respond 500 (Message ''Error fetching task''), st')
      | (Inr None, st') \<Rightarrow> (respond 404 (Message ''Task not found''), st')
      | (Inr (Some task), st') \<Rightarrow> (respond 200 (Entity task), st'))"

text \<open>
  \<^verbatim>\<open>if (req.body.dueDate) req.body.dueDate = new Date(req.body.dueDate)\<close>: the
  conversion is applied to a truthy value only.
\<close>

definition convertDueDate :: "date_parser \<Rightarrow> obj \<Rightarrow> obj" where
  "convertDueDate dp body =
     (case body ''dueDate'' of
        None \<Rightarrow> body
      | Some v \<Rightarrow> if truthy v then body(''dueDate'' \<mapsto> newDate dp v) else body)"

definition post_tasks :: "date_parser \<Rightarrow> obj \<Rightarrow> store \<Rightarrow> response \<times> store" where
  "post_tasks dp body st =
     (let newTask = plainToInstance Task (convertDueDate dp body) in
      case validateEntity Task newTask of
        Some res \<Rightarrow> (res, st)
      | None \<Rightarrow>
          (case repo_save dp Task newTask st of
             (Inl err, st') \<Rightarrow> (respond 500 (Message ''Error creating task''), st')
           | (Inr savedTask, st') \<Rightarrow> (respond 201 (Entity savedTask), st')))"

definition put_tasks_id :: "date_parser \<Rightarrow> string \<Rightarrow> obj \<Rightarrow> store \<Rightarrow> response \<times> store" where
  "put_tasks_id dp param body st =
     (case repo_findOneBy Task (Number param) st of
        (Inl err, st') \<Rightarrow> (respond 500 (Message ''Error updating task''), st')
      | (Inr None, st') \<Rightarrow> (respond 404 (Message ''Task not found''), st')
      | (Inr (Some task), st') \<Rightarrow>
          (let updatedTask = repo_merge Task task body in
           case repo_save dp Task updatedTask st' of
             (Inl err, st'') \<Rightarrow> (respond 500 (Message ''Error updating task''), st'')
           | (Inr result, st'') \<Rightarrow> (respond 200 (Entity result), st'')))"

definition delete_tasks_id :: "string \<Rightarrow> store \<Rightarrow> response \<times> store" where
  "delete_tasks_id param st =
     (case repo_delete Task (Number param) st of
        (Inl err, st') \<Rightarrow> (respond 500 (Message ''Error deleting task''), st')
      | (Inr affected, st') \<Rightarrow>
          if affected = 0 then (respond 404 (Message ''Task not found''), st')
          else (respond 204 NoBody, st'))"

subsection \<open>Routing\<close>

text \<open>
  The routes registered on \<^verbatim>\<open>app\<close>, with the path parameter and the body they carry.
  A route registered as \<^verbatim>\<open>app.METHOD(path, validateIdParam, handler)\<close> runs the
  handler only when the middleware called \<^verbatim>\<open>next()\<close>.
\<close>

datatype request =
    GetUsers
  | GetUser string
  | PostUser obj
  | PutUser string obj
  | DeleteUser string
  | GetListsOfUser string
  | GetList string
  | PostList obj
  | PutList string obj
  | DeleteList string
  | GetTasksOfList string
  | GetTask string
  | PostTask obj
  | PutTask string obj
  | DeleteTask string

definition afterIdCheck ::
  "(string \<Rightarrow> store \<Rightarrow> response \<times> store) \<Rightarrow> string \<Rightarrow> store \<Rightarrow> response \<times> store" where
  "afterIdCheck handler param st =
     (case validateIdParam param of
        Some res \<Rightarrow> (res, st)
      | None \<Rightarrow> handler param st)"

fun handle :: "date_parser \<Rightarrow> request \<Rightarrow> store \<Rightarrow> response \<times> store" where
  "handle dp GetUsers st = get_users st"
| "handle dp (GetUser p) st = afterIdCheck get_users_id p st"
| "handle dp (PostUser body) st = post_users dp body st"
| "handle dp (PutUser p body) st = afterIdCheck (\<lambda>q. put_users_id dp q body) p st"
| "handle dp (DeleteUser p) st = afterIdCheck delete_users_id p st"
| "handle dp (GetListsOfUser p) st = afterIdCheck get_lists_user_id p st"
| "handle dp (GetList p) st = afterIdCheck get_lists_id p st"
| "handle dp (PostList body) st = post_lists dp body st"
| "handle dp (PutList p body) st = afterIdCheck (\<lambda>q. put_lists_id dp q body) p st"
| "handle dp (DeleteList p) st = afterIdCheck delete_lists_id p st"
| "handle dp (GetTasksOfList p) st = afterIdCheck get_tasks_list_id p st"
| "handle dp (GetTask p) st = afterIdCheck get_tasks_id p st"
| "handle dp (PostTask body) st = post_tasks dp body st"
| "handle dp (PutTask p body) st = afterIdCheck (\<lambda>q. put_tasks_id dp q body) p st"
| "handle dp (DeleteTask p) st = afterIdCheck delete_tasks_id p st"

text \<open>The path parameter of a request, for the routes that have one.\<close>

fun idParam :: "request \<Rightarrow> string option" where
  "idParam (GetUser p) = Some p"
| "idParam (PutUser p body) = Some p"
| "idParam (DeleteUser p) = Some p"
| "idParam (GetListsOfUser p) = Some p"
| "idParam (GetList p) = Some p"
| "idParam (PutList p body) = Some p"
| "idParam (DeleteList p) = Some p"
| "idParam (GetTasksOfList p) = Some p"
| "idParam (GetTask p) = Some p"
| "idParam (PutTask p body) = Some p"
| "idParam (DeleteTask p) = Some p"
| "idParam GetUsers = None"
| "idParam (PostUser body) = None"
| "idParam (PostList body) = None"
| "idParam (PostTask body) = None"

section \<open>An example store and date parser\<close>

text \<open>
  The first rows of \<^verbatim>\<open>exampledata.sql\<close>: two users, the lists of the first, two tasks
  of the first list, on a server that refuses every value it would have to convert in a
  way not modelled above.
\<close>

definition exampleStore :: store where
  "exampleStore =
     \<lparr>rows = (\<lambda>e. case e of
         User \<Rightarrow> [[''id'' \<mapsto> JNum (Fin 1), ''name'' \<mapsto> JStr ''Alice''],
                   [''id'' \<mapsto> JNum (Fin 2), ''name'' \<mapsto> JStr ''Bob'']]
       | List \<Rightarrow> [[''id'' \<mapsto> JNum (Fin 1), ''userId'' \<mapsto> JNum (Fin 1), ''name'' \<mapsto> JStr ''Groceries''],
                   [''id'' \<mapsto> JNum (Fin 2), ''userId'' \<mapsto> JNum (Fin 1), ''name'' \<mapsto> JStr ''Work'']]
       | Task \<Rightarrow> [[''id'' \<mapsto> JNum (Fin 1), ''listId'' \<mapsto> JNum (Fin 1), ''text'' \<mapsto> JStr ''Buy milk'',
                    ''description'' \<mapsto> JStr [], ''dueDate'' \<mapsto> JDate (Fin 0),
                    ''completed'' \<mapsto> JBool False],
                   [''id'' \<mapsto> JNum (Fin 2), ''listId'' \<mapsto> JNum (Fin 1), ''text'' \<mapsto> JStr ''Buy eggs'',
                    ''description'' \<mapsto> JStr ''Get free-range eggs'',
                    ''dueDate'' \<mapsto> JDate (Fin 1729411200000),
                    ''completed'' \<mapsto> JBool False]]),
      nextId = (\<lambda>e. 3),
      queries = [],
      converts = (\<lambda>ty v. None)\<rparr>"

text \<open>
  An excerpt of \<^verbatim>\<open>Date.parse\<close>: one ISO date, and \<open>NaN\<close> for the other strings used in the
  examples, none of which any engine reads as a date.
\<close>

definition exampleDateParse :: date_parser where
  "exampleDateParse v = (if v = JStr ''2024-10-15T14:48:00.000Z'' then Fin 1729003680000 else NaN)"

section \<open>Notions used in the statements\<close>

text \<open>\<^verbatim>\<open>0 < x\<close> on numbers.\<close>

definition gt_zero :: "jsnum \<Rightarrow> bool" where
  "gt_zero n = (case n of NaN \<Rightarrow> False | Fin r \<Rightarrow> 0 < r | PInf \<Rightarrow> True | NInf \<Rightarrow> False)"

text \<open>The update and delete request of each entity.\<close>

definition deleteRequest :: "entity \<Rightarrow> string \<Rightarrow> request" where
  "deleteRequest e p = (case e of User \<Rightarrow> DeleteUser p | List \<Rightarrow> DeleteList p | Task \<Rightarrow> DeleteTask p)"

definition putRequest :: "entity \<Rightarrow> string \<Rightarrow> obj \<Rightarrow> request" where
  "putRequest e p body = (case e of User \<Rightarrow> PutUser p body | List \<Rightarrow> PutList p body | Task \<Rightarrow> PutTask p body)"

section \<open>Facts about the repository calls\<close>

lemma snd_repo_find [simp]: "snd (repo_find e st) = issue (Find e) st"
  by (simp add: repo_find_def)

lemma snd_repo_findOneBy [simp]: "snd (repo_findOneBy e n st) = issue (FindOneBy e n) st"
  by (simp add: repo_findOneBy_def)

lemma snd_repo_findWhere [simp]: "snd (repo_findWhere e c n st) = issue (FindWhere e c n) st"
  by (simp add: repo_findWhere_def)

lemma queries_issue [simp]: "queries (issue q st) = queries st @ [q]"
  by (simp add: issue_def)

lemma rows_issue [simp]: "rows (issue q st) = rows st"
  by (simp add: issue_def)

lemma nextId_issue [simp]: "nextId (issue q st) = nextId st"
  by (simp add: issue_def)

lemma queries_repo_delete [simp]: "queries (snd (repo_delete e n st)) = queries st @ [Delete e n]"
  by (cases n) (simp_all add: repo_delete_def)

lemma queries_insertGenerated [simp]: "queries (snd (insertGenerated e ent row st)) = queries st"
  by (simp add: insertGenerated_def Let_def)

lemma queries_insertRow [simp]: "queries (snd (insertRow dp e ent key st st')) = queries st'"
  by (simp add: insertRow_def split: option.splits)

lemma queries_updateRow [simp]: "queries (snd (updateRow dp e ent k old st st')) = queries st'"
  by (simp add: updateRow_def split: option.splits)

lemma queries_repo_save [simp]: "queries (snd (repo_save dp e ent st)) = queries st @ [Save e ent]"
  by (simp add: repo_save_def Let_def split: option.splits jsval.splits jsnum.splits)


lemma get_by_id_proceeds:
  "fst (get_users_id p st) \<noteq> invalidId \<and> queries (snd (get_users_id p st)) \<noteq> queries st"
  "fst (get_lists_id p st) \<noteq> invalidId \<and> queries (snd (get_lists_id p st)) \<noteq> queries st"
  "fst (get_tasks_id p st) \<noteq> invalidId \<and> queries (snd (get_tasks_id p st)) \<noteq> queries st"
  by (auto simp: get_users_id_def get_lists_id_def get_tasks_id_def invalidId_def respond_def repo_findOneBy_def
      split: prod.splits sum.splits option.splits jsnum.splits)


lemma repo_findOneBy_storeD: "repo_findOneBy e n st = (r, st') \<Longrightarrow> st' = issue (FindOneBy e n) st"
  by (metis snd_conv snd_repo_findOneBy)

lemma repo_findWhere_storeD: "repo_findWhere e c n st = (r, st') \<Longrightarrow> st' = issue (FindWhere e c n) st"
  by (metis snd_conv snd_repo_findWhere)

lemma repo_save_queriesD: "repo_save dp e ent st = (r, st') \<Longrightarrow> queries st' = queries st @ [Save e ent]"
  by (metis snd_conv queries_repo_save)

lemma repo_delete_queriesD: "repo_delete e n st = (r, st') \<Longrightarrow> queries st' = queries st @ [Delete e n]"
  by (metis snd_conv queries_repo_delete)

lemma validateEntity_status: "validateEntity e ent = Some res \<Longrightarrow> \<exists>cs. res = respond 400 (Constraints cs)"
  by (auto simp: validateEntity_def Let_def respond_def split: if_splits)

lemma put_proceeds:
  "fst (put_users_id dp p b st) \<noteq> invalidId \<and> queries (snd (put_users_id dp p b st)) \<noteq> queries st"
  "fst (put_lists_id dp p b st) \<noteq> invalidId \<and> queries (snd (put_lists_id dp p b st)) \<noteq> queries st"
  "fst (put_tasks_id dp p b st) \<noteq> invalidId \<and> queries (snd (put_tasks_id dp p b st)) \<noteq> queries st"
  by (auto simp: put_users_id_def put_lists_id_def put_tasks_id_def invalidId_def respond_def Let_def
      split: prod.splits sum.splits option.splits
      dest!: repo_findOneBy_storeD repo_save_queriesD validateEntity_status)

lemma delete_proceeds:
  "fst (delete_users_id p st) \<noteq> invalidId \<and> queries (snd (delete_users_id p st)) \<noteq> queries st"
  "fst (delete_lists_id p st) \<noteq> invalidId \<and> queries (snd (delete_lists_id p st)) \<noteq> queries st"
  "fst (delete_tasks_id p st) \<noteq> invalidId \<and> queries (snd (delete_tasks_id p st)) \<noteq> queries st"
  by (auto simp: delete_users_id_def delete_lists_id_def delete_tasks_id_def invalidId_def respond_def
      split: prod.splits sum.splits dest!: repo_delete_queriesD)

lemma filtered_proceeds:
  "fst (get_lists_user_id p st) \<noteq> invalidId \<and> queries (snd (get_lists_user_id p st)) \<noteq> queries st"
  "fst (get_tasks_list_id p st) \<noteq> invalidId \<and> queries (snd (get_tasks_list_id p st)) \<noteq> queries st"
  by (auto simp: get_lists_user_id_def get_tasks_list_id_def invalidId_def respond_def Let_def
      split: prod.splits sum.splits dest!: repo_findWhere_storeD)

lemma validateIdParam_gt_zero: "validateIdParam p = None \<longleftrightarrow> gt_zero (Number p)"
  by (cases "Number p") (auto simp: validateIdParam_def Let_def isNaN_def le_zero_def gt_zero_def)

lemma rows_deleteRows_same: "deleteRows e P rws e = filter (\<lambda>r. \<not> P r) (rws e)"
  by (cases e) (simp_all add: deleteRows_def deleteUsers_def deleteLists_def deleteTasks_def)

lemma repo_delete_Inr:
  "fst (repo_delete e n st) = Inr affected \<longleftrightarrow>
     (\<exists>k. n = Fin k \<and> affected = length (filter (hasId k) (rows st e)))"
  by (cases n) (auto simp: repo_delete_def)

lemma delete_handlers:
  "handle dp (deleteRequest e p) st =
     afterIdCheck (\<lambda>q s. case repo_delete e (Number q) s of
        (Inl err, s') \<Rightarrow> (respond 500 (Message (case e of User \<Rightarrow> ''Error deleting user''
            | List \<Rightarrow> ''Error deleting list'' | Task \<Rightarrow> ''Error deleting task'')), s')
      | (Inr affected, s') \<Rightarrow>
          if affected = 0 then (respond 404 (Message (case e of User \<Rightarrow> ''User not found''
            | List \<Rightarrow> ''List not found'' | Task \<Rightarrow> ''Task not found'')), s')
          else (respond 204 NoBody, s')) p st"
  by (cases e)
    (auto simp: deleteRequest_def afterIdCheck_def delete_users_id_def delete_lists_id_def
      delete_tasks_id_def split: option.splits prod.splits sum.splits)

lemma repo_findOneBy_eq:
  "fst (repo_findOneBy e n st) = r \<Longrightarrow> repo_findOneBy e n st = (r, issue (FindOneBy e n) st)"
  by (metis prod.collapse snd_repo_findOneBy)

lemma put_users_lists_handlers:
  "e \<noteq> Task \<Longrightarrow> validateIdParam p = None \<Longrightarrow>
   fst (repo_findOneBy e (Number p) st) = Inr (Some existing) \<Longrightarrow>
   handle dp (putRequest e p body) st =
     (case validateEntity e (plainToInstance e (repo_merge e existing body)) of
        Some res \<Rightarrow> (res, issue (FindOneBy e (Number p)) st)
      | None \<Rightarrow>
          (case repo_save dp e (repo_merge e existing body) (issue (FindOneBy e (Number p)) st) of
             (Inl err, st'') \<Rightarrow> (respond 500 (Message (case e of User \<Rightarrow> ''Error updating user''
                 | List \<Rightarrow> ''Error updating list'' | Task \<Rightarrow> ''Error updating task'')), st'')
           | (Inr result, st'') \<Rightarrow> (respond 200 (Entity result), st'')))"
  by (cases e)
    (auto simp: putRequest_def afterIdCheck_def put_users_id_def put_lists_id_def Let_def
      split: prod.splits sum.splits option.splits dest!: repo_findOneBy_eq)

lemma put_tasks_handler:
  "validateIdParam p = None \<Longrightarrow>
   fst (repo_findOneBy Task (Number p) st) = Inr (Some existing) \<Longrightarrow>
   handle dp (PutTask p body) st =
     (case repo_save dp Task (repo_merge Task existing body) (issue (FindOneBy Task (Number p)) st) of
        (Inl err, st'') \<Rightarrow> (respond 500 (Message ''Error updating task''), st'')
      | (Inr result, st'') \<Rightarrow> (respond 200 (Entity result), st''))"
  by (auto simp: afterIdCheck_def put_tasks_id_def Let_def
      split: prod.splits sum.splits option.splits dest!: repo_findOneBy_eq)

lemma put_tasks_status:
  "validateIdParam p = None \<Longrightarrow> status (fst (handle dp (PutTask p body) st)) \<in> {200, 404, 500}"
  by (auto simp: afterIdCheck_def put_tasks_id_def Let_def respond_def
      split: prod.splits sum.splits option.splits)

lemma example_find_user_1:
  "fst (repo_findOneBy User (Fin 1) exampleStore) =
     Inr (Some [''id'' \<mapsto> JNum (Fin 1), ''name'' \<mapsto> JStr ''Alice''])"
  by (simp add: repo_findOneBy_def exampleStore_def hasId_def)

lemma example_find_list_1:
  "fst (repo_findOneBy List (Fin 1) exampleStore) =
     Inr (Some [''id'' \<mapsto> JNum (Fin 1), ''userId'' \<mapsto> JNum (Fin 1), ''name'' \<mapsto> JStr ''Groceries''])"
  by (simp add: repo_findOneBy_def exampleStore_def hasId_def)

lemma example_find_task_1:
  "fst (repo_findOneBy Task (Fin 1) exampleStore) =
     Inr (Some [''id'' \<mapsto> JNum (Fin 1), ''listId'' \<mapsto> JNum (Fin 1), ''text'' \<mapsto> JStr ''Buy milk'',
                ''description'' \<mapsto> JStr [], ''dueDate'' \<mapsto> JDate (Fin 0),
                ''completed'' \<mapsto> JBool False])"
  by (simp add: repo_findOneBy_def exampleStore_def hasId_def)

lemma respond_eq: "respond a x = respond b y \<longleftrightarrow> a = b \<and> x = y"
  by (simp add: respond_def)

lemma validateIdParam_Some: "validateIdParam p = Some res \<Longrightarrow> res = invalidId"
  by (auto simp: validateIdParam_def Let_def invalidId_def respond_def split: if_splits)

lemma plainToInstance_apply:
  "plainToInstance e b c =
     (if c \<in> skippedKeys then defaults e c
      else case b c of None \<Rightarrow> defaults e c | Some v \<Rightarrow> Some v)"
  by (simp add: plainToInstance_def map_add_def restrict_map_def)

lemma not_skipped [simp]:
  "''id'' \<notin> skippedKeys" "''name'' \<notin> skippedKeys" "''userId'' \<notin> skippedKeys"
  "''listId'' \<notin> skippedKeys" "''text'' \<notin> skippedKeys" "''description'' \<notin> skippedKeys"
  "''dueDate'' \<notin> skippedKeys" "''completed'' \<notin> skippedKeys"
  by (simp_all add: skippedKeys_def)

lemma repo_merge_apply:
  "repo_merge e existing body c =
     (if c \<in> set (columns e) then (case body c of None \<Rightarrow> existing c | Some v \<Rightarrow> Some v)
      else existing c)"
  by (simp add: repo_merge_def map_add_def restrict_map_def)

lemma validate_User:
  "validate User ent =
     (case ent ''name'' of
        Some (JStr s) \<Rightarrow> []
      | _ \<Rightarrow> [\<lparr>property = ''name'', constraints = [(''isString'', ''name must be a string'')]\<rparr>])"
  by (simp add: validate_def validationMetadata_def validateProperty_def satisfies_def
      constraintOf_def split: option.splits jsval.splits)

lemma columnValue_insert:
  "length s \<le> n \<Longrightarrow>
     columnValue st dp (SqlVarchar n) notNull dflt None (Some (JStr s)) = Some (JStr s)"
  "utf8Length s \<le> 65535 \<Longrightarrow>
     columnValue st dp SqlText notNull dflt None (Some (JStr s)) = Some (JStr s)"
  "inIntRange k \<Longrightarrow>
     columnValue st dp SqlInt notNull dflt None (Some (JNum (Fin k))) = Some (JNum (Fin k))"
  "columnValue st dp SqlBoolean notNull dflt None (Some (JBool b)) = Some (JBool b)"
  "inDateTimeRange d \<Longrightarrow>
     columnValue st dp SqlDateTime notNull dflt None (Some (JDate (Fin d))) =
       Some (JDate (Fin (wholeSeconds d)))"
  "columnValue st dp ty False dflt None (Some JNull) = Some JNull"
  by (simp_all add: columnValue_def assign_def preparePersistentValue_def asText_def
      asInteger_def inIntRange_def)

lemma buildRow_User:
  "ent ''name'' = Some (JStr s) \<Longrightarrow> length s \<le> 100 \<Longrightarrow>
   buildRow st dp None (tableColumns User) ent = Some [''name'' \<mapsto> JStr s]"
  by (simp add: tableColumns_def columnValue_insert)

lemma buildRow_Task:
  assumes "columnValue st dp SqlInt True None None (ent ''listId'') = Some a"
    and "columnValue st dp (SqlVarchar 255) True None None (ent ''text'') = Some b"
    and "columnValue st dp SqlText False None None (ent ''description'') = Some c"
    and "columnValue st dp SqlDateTime False None None (ent ''dueDate'') = Some d"
    and "columnValue st dp SqlBoolean False (Some (JBool False)) None (ent ''completed'') = Some f"
  shows "buildRow st dp None (tableColumns Task) ent =
      Some [''completed'' \<mapsto> f, ''dueDate'' \<mapsto> d, ''description'' \<mapsto> c, ''text'' \<mapsto> b,
            ''listId'' \<mapsto> a]"
  by (simp add: tableColumns_def assms)

lemma repo_save_inserts:
  assumes "ent ''id'' = None \<or> ent ''id'' = Some JNull"
    and "buildRow st dp None (tableColumns e) ent = Some row"
    and "fkHolds e row (rows st)"
  shows "repo_save dp e ent st =
      (Inr (withId ent (of_int (nextId st e))),
       st\<lparr>rows := (rows st)(e := rows st e @ [withId row (of_int (nextId st e))]),
          nextId := (nextId st)(e := nextId st e + 1),
          queries := queries st @ [Save e ent]\<rparr>)"
  using assms(1)
  by (auto simp: repo_save_def Let_def insertRow_def assms(2,3) insertGenerated_def issue_def)

lemma convertDueDate_other: "c \<noteq> ''dueDate'' \<Longrightarrow> convertDueDate dp body c = body c"
  by (simp add: convertDueDate_def split: option.splits)

lemma convertDueDate_dueDate:
  "convertDueDate dp body ''dueDate'' =
     (case body ''dueDate'' of None \<Rightarrow> None | Some v \<Rightarrow> Some (if truthy v then newDate dp v else v))"
  by (simp add: convertDueDate_def split: option.splits)

lemma validate_Task_parts:
  "validate Task ent =
     validateProperty ent (''listId'', IsInt, False) @
     validateProperty ent (''text'', IsString, False) @
     validateProperty ent (''description'', IsString, True) @
     validateProperty ent (''dueDate'', IsDate, True) @
     validateProperty ent (''completed'', IsBoolean, True)"
  by (simp add: validate_def validationMetadata_def)

lemma validate_Task_dueDate:
  assumes "ent ''dueDate'' = Some v" and "v \<noteq> JNull" and "\<not> satisfies IsDate (Some v)"
  shows "[(''isDate'', ''dueDate must be a Date instance'')] \<in> set (map constraints (validate Task ent))"
proof -
  have "validateProperty ent (''dueDate'', IsDate, True) =
      [\<lparr>property = ''dueDate'', constraints = [(''isDate'', ''dueDate must be a Date instance'')]\<rparr>]"
    using assms by (simp add: validateProperty_def constraintOf_def)
  then show ?thesis by (simp add: validate_Task_parts)
qed

lemma post_tasks_creates:
  assumes "validate Task (plainToInstance Task (convertDueDate dp body)) = []"
    and "body ''id'' = None \<or> body ''id'' = Some JNull"
    and "buildRow st dp None (tableColumns Task) (plainToInstance Task (convertDueDate dp body)) =
      Some row"
    and "fkHolds Task row (rows st)"
  shows "handle dp (PostTask body) st =
      (respond 201 (Entity (withId (plainToInstance Task (convertDueDate dp body))
                      (of_int (nextId st Task)))),
       st\<lparr>rows := (rows st)(Task := rows st Task @ [withId row (of_int (nextId st Task))]),
          nextId := (nextId st)(Task := nextId st Task + 1),
          queries := queries st @ [Save Task (plainToInstance Task (convertDueDate dp body))]\<rparr>)"
proof -
  let ?inst = "plainToInstance Task (convertDueDate dp body)"
  have "?inst ''id'' = None \<or> ?inst ''id'' = Some JNull"
    using assms(2) by (auto simp: plainToInstance_apply convertDueDate_other defaults_def)
  from repo_save_inserts [OF this assms(3,4)] show ?thesis
    by (simp add: post_tasks_def Let_def validateEntity_def assms(1))
qed

lemma fkHolds_Task:
  "list_ex (hasId k) (rows st List) \<Longrightarrow> row ''listId'' = Some (JNum (Fin k)) \<Longrightarrow>
   fkHolds Task row (rows st)"
  by (simp add: fkHolds_def foreignKey_def hasId_def [abs_def])

lemma ex_rows_User: "rows exampleStore User = [[''id'' \<mapsto> JNum (Fin 1), ''name'' \<mapsto> JStr ''Alice''],
                   [''id'' \<mapsto> JNum (Fin 2), ''name'' \<mapsto> JStr ''Bob'']]"
  by (simp add: exampleStore_def)

lemma ex_rows_Task:
  "rows exampleStore Task =
     [[''id'' \<mapsto> JNum (Fin 1), ''listId'' \<mapsto> JNum (Fin 1), ''text'' \<mapsto> JStr ''Buy milk'',
       ''description'' \<mapsto> JStr [], ''dueDate'' \<mapsto> JDate (Fin 0), ''completed'' \<mapsto> JBool False],
      [''id'' \<mapsto> JNum (Fin 2), ''listId'' \<mapsto> JNum (Fin 1), ''text'' \<mapsto> JStr ''Buy eggs'',
       ''description'' \<mapsto> JStr ''Get free-range eggs'',
       ''dueDate'' \<mapsto> JDate (Fin 1729411200000), ''completed'' \<mapsto> JBool False]]"
  by (simp add: exampleStore_def)

lemmas model_defs =
  post_tasks_def post_users_def post_lists_def convertDueDate_def plainToInstance_def defaults_def
  skippedKeys_def validateEntity_def validate_def validationMetadata_def validateProperty_def
  satisfies_def constraintOf_def respond_def Let_def map_add_def restrict_map_def truthy_def
  newDate_def TimeClip_def isNaN_def isInteger_def repo_save_def insertRow_def updateRow_def
  tableColumns_def columnValue_def assign_def preparePersistentValue_def asInteger_def asText_def
  inDateTimeRange_def wholeSeconds_def fkHolds_def foreignKey_def insertGenerated_def withId_def
  issue_def inIntRange_def hasId_def exampleDateParse_def utf8Length_def

lemma ex_nextId: "nextId exampleStore e = 3"
  by (simp add: exampleStore_def)

lemma convertDueDate_idem:
  "body ''dueDate'' = Some v \<Longrightarrow> truthy v \<Longrightarrow>
   convertDueDate dp (body(''dueDate'' \<mapsto> newDate dp v)) = convertDueDate dp body"
  by (simp add: convertDueDate_def truthy_def newDate_def)

section \<open>Values of another type than the column's\<close>

text \<open>
  The conversions on the example store. \<^verbatim>\<open>POST /api/users\<close> with the id \<^verbatim>\<open>"7"\<close>
  inserts the user under the key 7. \<^verbatim>\<open>PUT /api/tasks/1\<close>, which does not validate, is
  answered with 200 for \<^verbatim>\<open>{completed: 1}\<close>, \<^verbatim>\<open>{dueDate: "not a date"}\<close> and
  \<^verbatim>\<open>{text: 5}\<close>, and the row then holds \<^verbatim>\<open>false\<close>, \<^verbatim>\<open>NULL\<close> and \<^verbatim>\<open>"5"\<close>.
\<close>

lemma ex_rows_List:
  "rows exampleStore List =
     [[''id'' \<mapsto> JNum (Fin 1), ''userId'' \<mapsto> JNum (Fin 1), ''name'' \<mapsto> JStr ''Groceries''],
      [''id'' \<mapsto> JNum (Fin 2), ''userId'' \<mapsto> JNum (Fin 1), ''name'' \<mapsto> JStr ''Work'']]"
  by (simp add: exampleStore_def)

lemma create_user_with_text_id:
  "status (fst (handle exampleDateParse
      (PostUser [''id'' \<mapsto> JStr ''7'', ''name'' \<mapsto> JStr ''Carol'']) exampleStore)) = 201
   \<and> rows (snd (handle exampleDateParse
      (PostUser [''id'' \<mapsto> JStr ''7'', ''name'' \<mapsto> JStr ''Carol'']) exampleStore)) User =
       [[''id'' \<mapsto> JNum (Fin 1), ''name'' \<mapsto> JStr ''Alice''],
        [''id'' \<mapsto> JNum (Fin 2), ''name'' \<mapsto> JStr ''Bob''],
        [''name'' \<mapsto> JStr ''Carol'', ''id'' \<mapsto> JNum (Fin 7)]]"
proof -
  have "integerLiteral ''7'' = Some 7" by code_simp
  then show ?thesis
    by (simp add: model_defs ex_rows_User ex_nextId)
qed

lemma update_task_stores_converted_values:
  "status (fst (handle exampleDateParse
      (PutTask ''1'' [''completed'' \<mapsto> JNum (Fin 1)]) exampleStore)) = 200
   \<and> map (\<lambda>r. r ''completed'') (rows (snd (handle exampleDateParse
      (PutTask ''1'' [''completed'' \<mapsto> JNum (Fin 1)]) exampleStore)) Task) =
       [Some (JBool False), Some (JBool False)]
   \<and> status (fst (handle exampleDateParse
      (PutTask ''1'' [''dueDate'' \<mapsto> JStr ''not a date'']) exampleStore)) = 200
   \<and> map (\<lambda>r. r ''dueDate'') (rows (snd (handle exampleDateParse
      (PutTask ''1'' [''dueDate'' \<mapsto> JStr ''not a date'']) exampleStore)) Task) =
       [Some JNull, Some (JDate (Fin 1729411200000))]
   \<and> status (fst (handle exampleDateParse
      (PutTask ''1'' [''text'' \<mapsto> JNum (Fin 5)]) exampleStore)) = 200
   \<and> map (\<lambda>r. r ''text'') (rows (snd (handle exampleDateParse
      (PutTask ''1'' [''text'' \<mapsto> JNum (Fin 5)]) exampleStore)) Task) =
       [Some (JStr ''5''), Some (JStr ''Buy eggs'')]"
proof -
  have n1: "Number ''1'' = Fin 1" by code_simp
  have v1: "validateIdParam ''1'' = None"
    by (simp add: validateIdParam_def n1 isNaN_def le_zero_def)
  have f: "repo_findOneBy Task (Fin 1) exampleStore =
      (Inr (Some [''id'' \<mapsto> JNum (Fin 1), ''listId'' \<mapsto> JNum (Fin 1),
                  ''text'' \<mapsto> JStr ''Buy milk'', ''description'' \<mapsto> JStr [],
                  ''dueDate'' \<mapsto> JDate (Fin 0), ''completed'' \<mapsto> JBool False]),
       issue (FindOneBy Task (Fin 1)) exampleStore)"
    by (rule repo_findOneBy_eq [OF example_find_task_1])
  have t: "integerText 5 = ''5''" by code_simp
  show ?thesis
    by (simp add: afterIdCheck_def v1 put_tasks_id_def n1 f repo_merge_apply columns_def
        model_defs ex_rows_Task ex_rows_List t)
qed

section \<open>The id-validation rule\<close>

text \<open>
  Claim C7. On every route that carries an \<^verbatim>\<open>{id}\<close> path parameter: when the parameter
  does not convert to a number, or converts to a number that is not strictly greater than
  zero, the response is 400 and the store is left exactly as it was, with no repository
  call issued; otherwise the middleware calls \<^verbatim>\<open>next()\<close>, the response is not the
  invalid-id response, and the handler has gone to the store.
\<close>

theorem id_validation_guards_every_id_route:
  assumes "idParam req = Some p"
  shows "if isNaN (Number p) \<or> le_zero (Number p)
         then handle dp req st = (respond 400 (Message ''Invalid ID parameter''), st)
         else validateIdParam p = None
              \<and> fst (handle dp req st) \<noteq> respond 400 (Message ''Invalid ID parameter'')
              \<and> queries (snd (handle dp req st)) \<noteq> queries st"
proof (cases "isNaN (Number p) \<or> le_zero (Number p)")
  case True
  then have "validateIdParam p = Some (respond 400 (Message ''Invalid ID parameter''))"
    by (simp add: validateIdParam_def Let_def respond_def)
  with assms True show ?thesis
    by (cases req) (simp_all add: afterIdCheck_def)
next
  case False
  then have ok: "validateIdParam p = None"
    by (simp add: validateIdParam_def Let_def)
  with assms False show ?thesis
    by (cases req)
      (simp_all add: afterIdCheck_def get_by_id_proceeds put_proceeds delete_proceeds
         filtered_proceeds flip: invalidId_def)
qed

theorem id_validation_guards_every_id_route_witness:
  "handle exampleDateParse (GetUser ''abc'') exampleStore = (respond 400 (Message ''Invalid ID parameter''), exampleStore)
   \<and> handle exampleDateParse (GetUser ''0'') exampleStore = (respond 400 (Message ''Invalid ID parameter''), exampleStore)
   \<and> handle exampleDateParse (GetUser ''-1'') exampleStore = (respond 400 (Message ''Invalid ID parameter''), exampleStore)
   \<and> queries (snd (handle exampleDateParse (DeleteTask ''2'') exampleStore)) \<noteq> queries exampleStore"
proof -
  have a: "Number ''abc'' = NaN" by code_simp
  have b: "Number ''0'' = Fin 0" by code_simp
  have c: "Number ''-1'' = Fin (- 1)" by code_simp
  have d: "Number ''2'' = Fin 2" by code_simp
  show ?thesis
    using id_validation_guards_every_id_route [of "GetUser ''abc''" "''abc''" exampleDateParse exampleStore]
      id_validation_guards_every_id_route [of "GetUser ''0''" "''0''" exampleDateParse exampleStore]
      id_validation_guards_every_id_route [of "GetUser ''-1''" "''-1''" exampleDateParse exampleStore]
      id_validation_guards_every_id_route [of "DeleteTask ''2''" "''2''" exampleDateParse exampleStore]
    by (simp add: a b c d isNaN_def le_zero_def)
qed

section \<open>Ids that are positive but not integers\<close>

text \<open>
  Claim C10. The id middleware lets through every parameter whose conversion is strictly
  positive, whether or not it is an integer or even finite: the handler of
  \<^verbatim>\<open>GET /api/users/:id\<close> then runs, queries the store with that very number, and the
  response is not 400. The witness instantiates this with \<^verbatim>\<open>1.5\<close>, which converts to
  the non-integer \<open>3/2\<close>, and with \<^verbatim>\<open>Infinity\<close>.
\<close>

theorem positive_ids_reach_the_store:
  assumes "gt_zero (Number p)"
  shows "validateIdParam p = None
         \<and> queries (snd (handle dp (GetUser p) st)) = queries st @ [FindOneBy User (Number p)]
         \<and> status (fst (handle dp (GetUser p) st)) \<noteq> 400"
proof -
  from assms have ok: "validateIdParam p = None"
    by (simp add: validateIdParam_gt_zero)
  then show ?thesis
    by (simp add: afterIdCheck_def get_users_id_def repo_findOneBy_def respond_def
        split: jsnum.splits option.splits)
qed

theorem positive_ids_reach_the_store_witness:
  "Number ''1.5'' = Fin (3 / 2) \<and> \<not> isInteger (3 / 2)
   \<and> validateIdParam ''1.5'' = None
   \<and> queries (snd (handle exampleDateParse (GetUser ''1.5'') exampleStore)) = [FindOneBy User (Fin (3 / 2))]
   \<and> status (fst (handle exampleDateParse (GetUser ''1.5'') exampleStore)) \<noteq> 400
   \<and> Number ''Infinity'' = PInf
   \<and> validateIdParam ''Infinity'' = None
   \<and> queries (snd (handle exampleDateParse (GetUser ''Infinity'') exampleStore)) = [FindOneBy User PInf]
   \<and> status (fst (handle exampleDateParse (GetUser ''Infinity'') exampleStore)) \<noteq> 400"
proof -
  have a: "Number ''1.5'' = Fin (3 / 2)" by code_simp
  have b: "Number ''Infinity'' = PInf" by code_simp
  have c: "\<not> isInteger (3 / 2)" by code_simp
  have q: "queries exampleStore = []" by (simp add: exampleStore_def)
  show ?thesis
    using positive_ids_reach_the_store [of "''1.5''" exampleDateParse exampleStore]
      positive_ids_reach_the_store [of "''Infinity''" exampleDateParse exampleStore]
    by (simp add: a b c q gt_zero_def)
qed

section \<open>Queries filtered by the parent\<close>

text \<open>
  Claim C6. For every id that passes the id check, \<^verbatim>\<open>GET /api/lists/user/:id\<close> and
  \<^verbatim>\<open>GET /api/tasks/list/:id\<close> answer 404 when the rows found for the parent are none,
  and 200 with exactly the rows found when there are some (and 500 when the query itself
  fails).
\<close>

theorem empty_parent_filter_is_not_found:
  assumes "validateIdParam p = None"
  shows "(case fst (repo_findWhere List ''userId'' (Number p) st) of
            Inr found \<Rightarrow>
              fst (handle dp (GetListsOfUser p) st) =
                (if found = [] then respond 404 (Message ''No lists found for this user'')
                 else respond 200 (EntityList found))
          | Inl err \<Rightarrow> status (fst (handle dp (GetListsOfUser p) st)) = 500)
       \<and> (case fst (repo_findWhere Task ''listId'' (Number p) st) of
            Inr found \<Rightarrow>
              fst (handle dp (GetTasksOfList p) st) =
                (if found = [] then respond 404 (Message ''No lists found for this user'')
                 else respond 200 (EntityList found))
          | Inl err \<Rightarrow> status (fst (handle dp (GetTasksOfList p) st)) = 500)"
  using assms
  by (simp add: afterIdCheck_def get_lists_user_id_def get_tasks_list_id_def repo_findWhere_def
      respond_def Let_def split: jsnum.splits)

theorem empty_parent_filter_is_not_found_witness:
  "fst (handle exampleDateParse (GetListsOfUser ''2'') exampleStore) =
     respond 404 (Message ''No lists found for this user'')
   \<and> fst (handle exampleDateParse (GetListsOfUser ''1'') exampleStore) =
     respond 200 (EntityList (rows exampleStore List))
   \<and> fst (handle exampleDateParse (GetTasksOfList ''2'') exampleStore) =
     respond 404 (Message ''No lists found for this user'')
   \<and> fst (handle exampleDateParse (GetTasksOfList ''1'') exampleStore) =
     respond 200 (EntityList (rows exampleStore Task))"
proof -
  have n1: "Number ''1'' = Fin 1" by code_simp
  have n2: "Number ''2'' = Fin 2" by code_simp
  have v1: "validateIdParam ''1'' = None"
    by (simp add: validateIdParam_def n1 isNaN_def le_zero_def)
  have v2: "validateIdParam ''2'' = None"
    by (simp add: validateIdParam_def n2 isNaN_def le_zero_def)
  show ?thesis
    using empty_parent_filter_is_not_found [OF v1, where st = exampleStore and dp = exampleDateParse]
      empty_parent_filter_is_not_found [OF v2, where st = exampleStore and dp = exampleDateParse]
    by (simp add: n1 n2 repo_findWhere_def exampleStore_def hasValue_def)
qed

section \<open>Delete\<close>

text \<open>
  Claim C9. For every id that passes the id check and every entity, when the delete
  statement was executed and reports \<open>affected\<close> rows, the response is 404 if that number
  is zero and 204 otherwise; the number is the number of rows that left the table; and
  the same request repeated on the resulting store answers 404. In the witness the task 1
  of the example store is deleted twice: 204, then 404.
\<close>

theorem delete_answers_by_affected_rows:
  assumes "validateIdParam p = None"
    and "fst (repo_delete e (Number p) st) = Inr affected"
  shows "status (fst (handle dp (deleteRequest e p) st)) = (if affected = 0 then 404 else 204)
       \<and> affected = length (rows st e) - length (rows (snd (handle dp (deleteRequest e p) st)) e)
       \<and> status (fst (handle dp (deleteRequest e p) (snd (handle dp (deleteRequest e p) st)))) = 404"
proof -
  from assms(2) obtain k where k: "Number p = Fin k"
    and aff: "affected = length (filter (hasId k) (rows st e))"
    by (auto simp: repo_delete_Inr)
  have run: "handle dp (deleteRequest e p) s =
      (if length (filter (hasId k) (rows s e)) = 0
       then respond 404 (Message (case e of User \<Rightarrow> ''User not found''
            | List \<Rightarrow> ''List not found'' | Task \<Rightarrow> ''Task not found''))
       else respond 204 NoBody,
       (issue (Delete e (Fin k)) s)\<lparr>rows := deleteRows e (hasId k) (rows s)\<rparr>)" for s
    using assms(1) by (simp add: delete_handlers afterIdCheck_def k repo_delete_def)
  have len: "length (filter (hasId k) (rows st e)) =
      length (rows st e) - length (filter (\<lambda>r. \<not> hasId k r) (rows st e))"
    using sum_length_filter_compl [of "hasId k" "rows st e"] by simp
  show ?thesis
    by (simp add: run aff rows_deleteRows_same respond_def len)
qed

theorem delete_answers_by_affected_rows_witness:
  "status (fst (handle exampleDateParse (DeleteTask ''1'') exampleStore)) = 204
   \<and> status (fst (handle exampleDateParse (DeleteTask ''1'')
         (snd (handle exampleDateParse (DeleteTask ''1'') exampleStore)))) = 404"
proof -
  have n1: "Number ''1'' = Fin 1" by code_simp
  have v1: "validateIdParam ''1'' = None"
    by (simp add: validateIdParam_def n1 isNaN_def le_zero_def)
  have d: "fst (repo_delete Task (Number ''1'') exampleStore) = Inr 1"
    by (simp add: n1 repo_delete_def exampleStore_def hasId_def)
  show ?thesis
    using delete_answers_by_affected_rows [OF v1 d, where dp = exampleDateParse]
    by (simp add: deleteRequest_def)
qed

section \<open>Validation on update\<close>

text \<open>
  Claim C5. For an id that passes the id check: \<^verbatim>\<open>PUT /api/users/:id\<close> and
  \<^verbatim>\<open>PUT /api/lists/:id\<close>, when the record exists and the merged record fails
  validation, answer 400 with the constraint messages and leave the store with the one
  lookup issued and nothing saved; \<^verbatim>\<open>PUT /api/tasks/:id\<close> never answers 400, and when
  the task exists it saves the merged record whether or not that record would pass
  validation: the response and the store are those of \<^verbatim>\<open>save\<close> on the merged record,
  200 with the saved record when the save succeeds and 500 when it fails.
\<close>

theorem update_validates_users_and_lists_only:
  assumes "validateIdParam p = None"
  shows "(e \<noteq> Task \<and> fst (repo_findOneBy e (Number p) st) = Inr (Some existing)
            \<and> validate e (plainToInstance e (repo_merge e existing body)) \<noteq> [] \<longrightarrow>
          handle dp (putRequest e p body) st =
            (respond 400 (Constraints (map constraints
               (validate e (plainToInstance e (repo_merge e existing body))))),
             issue (FindOneBy e (Number p)) st))
       \<and> status (fst (handle dp (PutTask p body) st)) \<noteq> 400
       \<and> (fst (repo_findOneBy Task (Number p) st) = Inr (Some task) \<longrightarrow>
          queries (snd (handle dp (PutTask p body) st)) =
            queries st @ [FindOneBy Task (Number p), Save Task (repo_merge Task task body)])
       \<and> (fst (repo_findOneBy Task (Number p) st) = Inr (Some task) \<longrightarrow>
          handle dp (PutTask p body) st =
            (case repo_save dp Task (repo_merge Task task body)
                    (issue (FindOneBy Task (Number p)) st) of
               (Inl err, st'') \<Rightarrow> (respond 500 (Message ''Error updating task''), st'')
             | (Inr result, st'') \<Rightarrow> (respond 200 (Entity result), st'')))"
proof (intro conjI impI)
  assume a: "e \<noteq> Task \<and> fst (repo_findOneBy e (Number p) st) = Inr (Some existing)
      \<and> validate e (plainToInstance e (repo_merge e existing body)) \<noteq> []"
  then have ne: "e \<noteq> Task" and f: "fst (repo_findOneBy e (Number p) st) = Inr (Some existing)"
    by simp_all
  show "handle dp (putRequest e p body) st =
      (respond 400 (Constraints (map constraints
         (validate e (plainToInstance e (repo_merge e existing body))))),
       issue (FindOneBy e (Number p)) st)"
    unfolding put_users_lists_handlers [OF ne assms f]
    using a by (simp add: validateEntity_def Let_def respond_def)
next
  show "status (fst (handle dp (PutTask p body) st)) \<noteq> 400"
    using put_tasks_status [OF assms, of dp body st] by auto
next
  assume f: "fst (repo_findOneBy Task (Number p) st) = Inr (Some task)"
  show "queries (snd (handle dp (PutTask p body) st)) =
      queries st @ [FindOneBy Task (Number p), Save Task (repo_merge Task task body)]"
    unfolding put_tasks_handler [OF assms f]
    by (auto split: prod.splits sum.splits dest!: repo_save_queriesD)
next
  assume f: "fst (repo_findOneBy Task (Number p) st) = Inr (Some task)"
  show "handle dp (PutTask p body) st =
      (case repo_save dp Task (repo_merge Task task body) (issue (FindOneBy Task (Number p)) st) of
         (Inl err, st'') \<Rightarrow> (respond 500 (Message ''Error updating task''), st'')
       | (Inr result, st'') \<Rightarrow> (respond 200 (Entity result), st''))"
    by (rule put_tasks_handler [OF assms f])
qed

text \<open>
  Claim C5 on the example store. \<^verbatim>\<open>PUT /api/users/1\<close> with \<^verbatim>\<open>{name: 5}\<close> is
  answered with 400 and only the lookup has been issued, and so is
  \<^verbatim>\<open>PUT /api/lists/1\<close> with \<^verbatim>\<open>{userId: "2"}\<close>. \<^verbatim>\<open>PUT /api/tasks/1\<close> with a
  due date given as a string, which \<^verbatim>\<open>@IsDate()\<close> rejects on the merged record, is
  answered with 200, and the row of task 1 has the date.
\<close>

theorem update_validates_users_and_lists_only_witness:
  "status (fst (handle exampleDateParse (PutUser ''1'' [''name'' \<mapsto> JNum (Fin 5)]) exampleStore)) = 400
   \<and> snd (handle exampleDateParse (PutUser ''1'' [''name'' \<mapsto> JNum (Fin 5)]) exampleStore) =
       issue (FindOneBy User (Fin 1)) exampleStore
   \<and> handle exampleDateParse (PutList ''1'' [''userId'' \<mapsto> JStr ''2'']) exampleStore =
       (respond 400 (Constraints [[(''isInt'', ''userId must be an integer number'')]]),
        issue (FindOneBy List (Fin 1)) exampleStore)
   \<and> validate Task (plainToInstance Task (repo_merge Task
        [''id'' \<mapsto> JNum (Fin 1), ''listId'' \<mapsto> JNum (Fin 1), ''text'' \<mapsto> JStr ''Buy milk'',
         ''description'' \<mapsto> JStr [], ''dueDate'' \<mapsto> JDate (Fin 0), ''completed'' \<mapsto> JBool False]
        [''dueDate'' \<mapsto> JStr ''2024-10-15T14:48:00.000Z''])) \<noteq> []
   \<and> status (fst (handle exampleDateParse
        (PutTask ''1'' [''dueDate'' \<mapsto> JStr ''2024-10-15T14:48:00.000Z'']) exampleStore)) = 200
   \<and> queries (snd (handle exampleDateParse
        (PutTask ''1'' [''dueDate'' \<mapsto> JStr ''2024-10-15T14:48:00.000Z'']) exampleStore)) =
       [FindOneBy Task (Fin 1),
        Save Task (repo_merge Task
          [''id'' \<mapsto> JNum (Fin 1), ''listId'' \<mapsto> JNum (Fin 1), ''text'' \<mapsto> JStr ''Buy milk'',
           ''description'' \<mapsto> JStr [], ''dueDate'' \<mapsto> JDate (Fin 0), ''completed'' \<mapsto> JBool False]
          [''dueDate'' \<mapsto> JStr ''2024-10-15T14:48:00.000Z''])]
   \<and> map (\<lambda>r. r ''dueDate'') (rows (snd (handle exampleDateParse
        (PutTask ''1'' [''dueDate'' \<mapsto> JStr ''2024-10-15T14:48:00.000Z'']) exampleStore)) Task) =
       [Some (JDate (Fin 1729003680000)), Some (JDate (Fin 1729411200000))]"
proof -
  have n1: "Number ''1'' = Fin 1" by code_simp
  have v1: "validateIdParam ''1'' = None"
    by (simp add: validateIdParam_def n1 isNaN_def le_zero_def)
  have bad: "validate User (plainToInstance User (repo_merge User
       [''id'' \<mapsto> JNum (Fin 1), ''name'' \<mapsto> JStr ''Alice''] [''name'' \<mapsto> JNum (Fin 5)])) \<noteq> []"
    by (simp add: validate_User plainToInstance_apply repo_merge_apply columns_def defaults_def)
  have bad': "validate Task (plainToInstance Task (repo_merge Task
        [''id'' \<mapsto> JNum (Fin 1), ''listId'' \<mapsto> JNum (Fin 1), ''text'' \<mapsto> JStr ''Buy milk'',
         ''description'' \<mapsto> JStr [], ''dueDate'' \<mapsto> JDate (Fin 0), ''completed'' \<mapsto> JBool False]
        [''dueDate'' \<mapsto> JStr ''2024-10-15T14:48:00.000Z''])) \<noteq> []"
    by (simp add: validate_Task_parts validateProperty_def satisfies_def
        plainToInstance_apply repo_merge_apply columns_def defaults_def)
  have badl: "validate List (plainToInstance List (repo_merge List
       [''id'' \<mapsto> JNum (Fin 1), ''userId'' \<mapsto> JNum (Fin 1), ''name'' \<mapsto> JStr ''Groceries'']
       [''userId'' \<mapsto> JStr ''2''])) =
      [\<lparr>property = ''userId'', constraints = [(''isInt'', ''userId must be an integer number'')]\<rparr>]"
    by (simp add: validate_def validationMetadata_def validateProperty_def satisfies_def
        constraintOf_def plainToInstance_apply repo_merge_apply columns_def defaults_def)
  have q: "queries exampleStore = []" by (simp add: exampleStore_def)
  have saved: "repo_save exampleDateParse Task (repo_merge Task
        [''id'' \<mapsto> JNum (Fin 1), ''listId'' \<mapsto> JNum (Fin 1), ''text'' \<mapsto> JStr ''Buy milk'',
         ''description'' \<mapsto> JStr [], ''dueDate'' \<mapsto> JDate (Fin 0), ''completed'' \<mapsto> JBool False]
        [''dueDate'' \<mapsto> JStr ''2024-10-15T14:48:00.000Z''])
        (issue (FindOneBy Task (Fin 1)) exampleStore) =
      (Inr (repo_merge Task
        [''id'' \<mapsto> JNum (Fin 1), ''listId'' \<mapsto> JNum (Fin 1), ''text'' \<mapsto> JStr ''Buy milk'',
         ''description'' \<mapsto> JStr [], ''dueDate'' \<mapsto> JDate (Fin 0), ''completed'' \<mapsto> JBool False]
        [''dueDate'' \<mapsto> JStr ''2024-10-15T14:48:00.000Z'']),
       (issue (Save Task (repo_merge Task
        [''id'' \<mapsto> JNum (Fin 1), ''listId'' \<mapsto> JNum (Fin 1), ''text'' \<mapsto> JStr ''Buy milk'',
         ''description'' \<mapsto> JStr [], ''dueDate'' \<mapsto> JDate (Fin 0), ''completed'' \<mapsto> JBool False]
        [''dueDate'' \<mapsto> JStr ''2024-10-15T14:48:00.000Z''])) (issue (FindOneBy Task (Fin 1)) exampleStore))
        \<lparr>rows := (rows exampleStore)(Task :=
          [[''completed'' \<mapsto> JBool False, ''dueDate'' \<mapsto> JDate (Fin 1729003680000),
            ''description'' \<mapsto> JStr [], ''text'' \<mapsto> JStr ''Buy milk'', ''listId'' \<mapsto> JNum (Fin 1),
            ''id'' \<mapsto> JNum (Fin 1)],
           [''id'' \<mapsto> JNum (Fin 2), ''listId'' \<mapsto> JNum (Fin 1), ''text'' \<mapsto> JStr ''Buy eggs'',
            ''description'' \<mapsto> JStr ''Get free-range eggs'',
            ''dueDate'' \<mapsto> JDate (Fin 1729411200000), ''completed'' \<mapsto> JBool False]])\<rparr>)"
    by (simp add: repo_save_def Let_def repo_merge_apply columns_def assign_def asInteger_def
        isInteger_def inIntRange_def ex_rows_Task hasId_def updateRow_def tableColumns_def
        columnValue_def preparePersistentValue_def newDate_def exampleDateParse_def TimeClip_def
        inDateTimeRange_def wholeSeconds_def fkHolds_def foreignKey_def exampleStore_def
        withId_def)
  show ?thesis
    using update_validates_users_and_lists_only [OF v1, where e = User and st = exampleStore
        and dp = exampleDateParse and body = "[''name'' \<mapsto> JNum (Fin 5)]"
        and existing = "[''id'' \<mapsto> JNum (Fin 1), ''name'' \<mapsto> JStr ''Alice'']"
        and task = "[''id'' \<mapsto> JNum (Fin 1), ''listId'' \<mapsto> JNum (Fin 1), ''text'' \<mapsto> JStr ''Buy milk'',
         ''description'' \<mapsto> JStr [], ''dueDate'' \<mapsto> JDate (Fin 0), ''completed'' \<mapsto> JBool False]"]
      update_validates_users_and_lists_only [OF v1, where e = User and st = exampleStore
        and dp = exampleDateParse and body = "[''dueDate'' \<mapsto> JStr ''2024-10-15T14:48:00.000Z'']"
        and existing = "[''id'' \<mapsto> JNum (Fin 1), ''name'' \<mapsto> JStr ''Alice'']"
        and task = "[''id'' \<mapsto> JNum (Fin 1), ''listId'' \<mapsto> JNum (Fin 1), ''text'' \<mapsto> JStr ''Buy milk'',
         ''description'' \<mapsto> JStr [], ''dueDate'' \<mapsto> JDate (Fin 0), ''completed'' \<mapsto> JBool False]"]
      update_validates_users_and_lists_only [OF v1, where e = List and st = exampleStore
        and dp = exampleDateParse and body = "[''userId'' \<mapsto> JStr ''2'']"
        and existing = "[''id'' \<mapsto> JNum (Fin 1), ''userId'' \<mapsto> JNum (Fin 1),
          ''name'' \<mapsto> JStr ''Groceries'']", THEN conjunct1]
      bad bad'
    by (simp add: n1 example_find_user_1 example_find_task_1 example_find_list_1 putRequest_def
        respond_def q saved badl del: handle.simps)
qed

section \<open>Creating a task from the text alone\<close>

text \<open>
  Claim C1 says that a body holding only \<^verbatim>\<open>text\<close> is answered with 201. It is not:
  \<^verbatim>\<open>listId\<close> carries \<^verbatim>\<open>@IsInt()\<close> without \<^verbatim>\<open>@IsOptional()\<close>, so the instance
  built from \<^verbatim>\<open>{text: "Buy milk"}\<close> fails validation; the response is 400 and the store
  is not touched.
\<close>

theorem task_without_listId_is_rejected:
  "handle exampleDateParse (PostTask [''text'' \<mapsto> JStr ''Buy milk'']) exampleStore =
     (respond 400 (Constraints [[(''isInt'', ''listId must be an integer number'')]]), exampleStore)"
  by (simp add: model_defs)

text \<open>
  Claim C1, amended. A body that holds exactly \<^verbatim>\<open>text\<close>, a string of at most 255
  characters, and \<^verbatim>\<open>listId\<close>, the integer id of an existing list, is answered with 201;
  the created task has the empty description, \<^verbatim>\<open>completed = false\<close> and the due date
  epoch zero, in the response and in the row appended to the table.
\<close>

theorem create_task_with_text_and_list_gets_defaults:
  assumes "dom body = {''text'', ''listId''}"
    and "body ''text'' = Some (JStr t)" and "length t \<le> 255"
    and "body ''listId'' = Some (JNum (Fin k))" and "inIntRange k"
    and "list_ex (hasId k) (rows st List)"
  shows "\<exists>ent st'.
      handle dp (PostTask body) st = (respond 201 (Entity ent), st')
      \<and> ent ''text'' = Some (JStr t) \<and> ent ''listId'' = Some (JNum (Fin k))
      \<and> ent ''description'' = Some (JStr [])
      \<and> ent ''completed'' = Some (JBool False)
      \<and> ent ''dueDate'' = Some (JDate (Fin 0))
      \<and> ent ''id'' = Some (JNum (Fin (of_int (nextId st Task))))
      \<and> rows st' Task = rows st Task @
           [[''completed'' \<mapsto> JBool False, ''dueDate'' \<mapsto> JDate (Fin 0),
             ''description'' \<mapsto> JStr [], ''text'' \<mapsto> JStr t, ''listId'' \<mapsto> JNum (Fin k),
             ''id'' \<mapsto> JNum (Fin (of_int (nextId st Task)))]]"
proof -
  have absent: "body ''id'' = None" "body ''description'' = None" "body ''completed'' = None"
      "body ''dueDate'' = None"
  proof -
    have "''id'' \<notin> dom body" "''description'' \<notin> dom body" "''completed'' \<notin> dom body"
        "''dueDate'' \<notin> dom body"
      unfolding assms(1) by simp_all
    then show "body ''id'' = None" "body ''description'' = None" "body ''completed'' = None"
        "body ''dueDate'' = None"
      by (simp_all only: domIff not_not)
  qed
  let ?inst = "plainToInstance Task (convertDueDate dp body)"
  have due: "?inst ''dueDate'' = Some (JDate (Fin 0))"
    by (simp add: plainToInstance_apply convertDueDate_dueDate absent defaults_def)
  have inst: "?inst ''listId'' = Some (JNum (Fin k))" "?inst ''text'' = Some (JStr t)"
      "?inst ''description'' = Some (JStr [])" "?inst ''completed'' = Some (JBool False)"
    using assms(2,4) absent
    by (simp_all add: plainToInstance_apply convertDueDate_other defaults_def)
  have valid: "validate Task ?inst = []"
    using assms(5)
    by (simp add: validate_Task_parts validateProperty_def satisfies_def inst due inIntRange_def
        isNaN_def)
  have row: "buildRow st dp None (tableColumns Task) ?inst =
      Some [''completed'' \<mapsto> JBool False, ''dueDate'' \<mapsto> JDate (Fin 0),
            ''description'' \<mapsto> JStr [], ''text'' \<mapsto> JStr t, ''listId'' \<mapsto> JNum (Fin k)]"
    using assms(3,5)
    by (simp add: buildRow_Task inst due columnValue_insert inDateTimeRange_def wholeSeconds_def
        utf8Length_def)
  have fk: "fkHolds Task [''completed'' \<mapsto> JBool False, ''dueDate'' \<mapsto> JDate (Fin 0),
            ''description'' \<mapsto> JStr [], ''text'' \<mapsto> JStr t, ''listId'' \<mapsto> JNum (Fin k)] (rows st)"
    using assms(6) by (rule fkHolds_Task) simp
  show ?thesis
    unfolding post_tasks_creates [OF valid disjI1 [OF absent(1)] row fk]
    by (intro exI conjI, rule refl) (simp_all add: withId_def inst due)
qed

text \<open>
  The amended claim C1 on the example store.
\<close>

theorem create_task_with_text_and_list_gets_defaults_witness:
  "\<exists>ent st'.
      handle exampleDateParse
        (PostTask [''text'' \<mapsto> JStr ''Buy milk'', ''listId'' \<mapsto> JNum (Fin 1)]) exampleStore =
        (respond 201 (Entity ent), st')
      \<and> ent ''description'' = Some (JStr [])
      \<and> ent ''completed'' = Some (JBool False)
      \<and> ent ''dueDate'' = Some (JDate (Fin 0))
      \<and> ent ''id'' = Some (JNum (Fin 3))
      \<and> length (rows st' Task) = 3"
proof -
  have d: "dom [''text'' \<mapsto> JStr ''Buy milk'', ''listId'' \<mapsto> JNum (Fin 1)] = {''text'', ''listId''}"
    by auto
  have l: "list_ex (hasId 1) (rows exampleStore List)"
    by (simp add: exampleStore_def hasId_def)
  have r: "inIntRange 1" by (simp add: inIntRange_def isInteger_def)
  have n: "nextId exampleStore Task = 3" "length (rows exampleStore Task) = 2"
    by (simp_all add: exampleStore_def)
  from create_task_with_text_and_list_gets_defaults
      [OF d _ _ _ r l, of "''Buy milk''" exampleDateParse]
  obtain ent st' where
    "handle exampleDateParse
        (PostTask [''text'' \<mapsto> JStr ''Buy milk'', ''listId'' \<mapsto> JNum (Fin 1)]) exampleStore =
        (respond 201 (Entity ent), st')"
    "ent ''description'' = Some (JStr [])" "ent ''completed'' = Some (JBool False)"
    "ent ''dueDate'' = Some (JDate (Fin 0))" "ent ''id'' = Some (JNum (Fin 3))"
    "length (rows st' Task) = 3"
    by (auto simp: n simp del: handle.simps)
  then show ?thesis by blast
qed

section \<open>The due date on create\<close>

text \<open>
  Claim C2 says that an unparseable \<^verbatim>\<open>dueDate\<close> falls back to epoch zero. It does not:
  \<^verbatim>\<open>new Date("not a date")\<close> is an Invalid Date, which replaces the default on the
  instance and fails \<^verbatim>\<open>@IsDate()\<close>; the response is 400 and no task is created.
\<close>

theorem unparseable_dueDate_is_rejected:
  "handle exampleDateParse
     (PostTask [''listId'' \<mapsto> JNum (Fin 1), ''text'' \<mapsto> JStr ''Buy milk'',
                ''dueDate'' \<mapsto> JStr ''not a date'']) exampleStore =
     (respond 400 (Constraints [[(''isDate'', ''dueDate must be a Date instance'')]]), exampleStore)"
  by (simp add: model_defs)

text \<open>
  Claim C2, amended. In create-task a truthy \<^verbatim>\<open>dueDate\<close> is replaced by
  \<^verbatim>\<open>new Date(dueDate)\<close> before the entity is built: the request is handled as the one
  whose body already holds that \<^verbatim>\<open>Date\<close>. A \<^verbatim>\<open>dueDate\<close> that is present and not
  \<^verbatim>\<open>null\<close>, and that is falsy (the empty string, zero, \<^verbatim>\<open>false\<close>) or converts to an
  Invalid Date, is answered with 400, with the constraint "dueDate must be a Date
  instance", and nothing is stored. Let the rest of the body be valid: \<^verbatim>\<open>text\<close> a
  string of at most 255 characters, \<^verbatim>\<open>listId\<close> the integer id of an existing list,
  \<^verbatim>\<open>description\<close> absent, \<^verbatim>\<open>null\<close> or a string that fits the column,
  \<^verbatim>\<open>completed\<close> absent, \<^verbatim>\<open>null\<close> or a boolean, no \<^verbatim>\<open>id\<close>, any other
  properties. Then the task is created with 201. When \<^verbatim>\<open>dueDate\<close> is absent the
  created task has the due date epoch zero, in the response and in the stored row; when
  it is \<^verbatim>\<open>null\<close> the created task has no due date; when it is truthy and converts to a
  date that the column holds, the response has that date and the stored row has it cut
  to whole seconds.
\<close>

theorem create_task_converts_or_rejects_dueDate:
  "(body ''dueDate'' = Some v \<and> truthy v \<longrightarrow>
      handle dp (PostTask body) st = handle dp (PostTask (body(''dueDate'' \<mapsto> newDate dp v))) st)
   \<and> (body ''dueDate'' = Some v \<and> v \<noteq> JNull \<and> (truthy v \<longrightarrow> newDate dp v = JDate NaN) \<longrightarrow>
      (\<exists>cs. handle dp (PostTask body) st = (respond 400 (Constraints cs), st)
            \<and> [(''isDate'', ''dueDate must be a Date instance'')] \<in> set cs))
   \<and> (body ''text'' = Some (JStr t) \<and> length t \<le> 255
        \<and> body ''listId'' = Some (JNum (Fin k)) \<and> inIntRange k \<and> list_ex (hasId k) (rows st List)
        \<and> (body ''id'' = None \<or> body ''id'' = Some JNull)
        \<and> (body ''description'' = None \<or> body ''description'' = Some JNull
            \<or> (\<exists>ds. body ''description'' = Some (JStr ds) \<and> utf8Length ds \<le> 65535))
        \<and> (body ''completed'' = None \<or> body ''completed'' = Some JNull
            \<or> (\<exists>b. body ''completed'' = Some (JBool b)))
        \<and> (body ''dueDate'' = None \<and> due = JDate (Fin 0) \<and> stored = JDate (Fin 0)
            \<or> body ''dueDate'' = Some JNull \<and> due = JNull \<and> stored = JNull
            \<or> (\<exists>d. body ''dueDate'' = Some v \<and> truthy v \<and> newDate dp v = JDate (Fin d)
                  \<and> inDateTimeRange d
                  \<and> due = JDate (Fin d) \<and> stored = JDate (Fin (wholeSeconds d)))) \<longrightarrow>
      (\<exists>ent st'. handle dp (PostTask body) st = (respond 201 (Entity ent), st')
            \<and> ent ''dueDate'' = Some due
            \<and> map (\<lambda>r. r ''dueDate'') (rows st' Task) =
                map (\<lambda>r. r ''dueDate'') (rows st Task) @ [Some stored]))"
proof (intro conjI impI)
  assume "body ''dueDate'' = Some v \<and> truthy v"
  then show "handle dp (PostTask body) st =
      handle dp (PostTask (body(''dueDate'' \<mapsto> newDate dp v))) st"
    by (simp add: post_tasks_def convertDueDate_idem)
next
  assume a: "body ''dueDate'' = Some v \<and> v \<noteq> JNull \<and> (truthy v \<longrightarrow> newDate dp v = JDate NaN)"
  let ?inst = "plainToInstance Task (convertDueDate dp body)"
  have m: "[(''isDate'', ''dueDate must be a Date instance'')] \<in> set (map constraints (validate Task ?inst))"
  proof (cases "truthy v")
    case True
    with a have "?inst ''dueDate'' = Some (JDate NaN)"
      by (simp add: plainToInstance_apply convertDueDate_dueDate)
    then show ?thesis
      by (rule validate_Task_dueDate) (simp_all add: satisfies_def isNaN_def)
  next
    case False
    with a have "?inst ''dueDate'' = Some v"
      by (simp add: plainToInstance_apply convertDueDate_dueDate)
    moreover from a have "v \<noteq> JNull" by simp
    moreover from False have "\<not> satisfies IsDate (Some v)"
      by (cases v) (simp_all add: satisfies_def truthy_def)
    ultimately show ?thesis
      by (rule validate_Task_dueDate)
  qed
  then have "validate Task ?inst \<noteq> []" by auto
  then have "handle dp (PostTask body) st =
      (respond 400 (Constraints (map constraints (validate Task ?inst))), st)"
    by (simp add: post_tasks_def Let_def validateEntity_def respond_def)
  with m show "\<exists>cs. handle dp (PostTask body) st = (respond 400 (Constraints cs), st)
      \<and> [(''isDate'', ''dueDate must be a Date instance'')] \<in> set cs"
    by blast
next
  assume a: "body ''text'' = Some (JStr t) \<and> length t \<le> 255
        \<and> body ''listId'' = Some (JNum (Fin k)) \<and> inIntRange k \<and> list_ex (hasId k) (rows st List)
        \<and> (body ''id'' = None \<or> body ''id'' = Some JNull)
        \<and> (body ''description'' = None \<or> body ''description'' = Some JNull
            \<or> (\<exists>ds. body ''description'' = Some (JStr ds) \<and> utf8Length ds \<le> 65535))
        \<and> (body ''completed'' = None \<or> body ''completed'' = Some JNull
            \<or> (\<exists>b. body ''completed'' = Some (JBool b)))
        \<and> (body ''dueDate'' = None \<and> due = JDate (Fin 0) \<and> stored = JDate (Fin 0)
            \<or> body ''dueDate'' = Some JNull \<and> due = JNull \<and> stored = JNull
            \<or> (\<exists>d. body ''dueDate'' = Some v \<and> truthy v \<and> newDate dp v = JDate (Fin d)
                  \<and> inDateTimeRange d
                  \<and> due = JDate (Fin d) \<and> stored = JDate (Fin (wholeSeconds d))))"
  let ?inst = "plainToInstance Task (convertDueDate dp body)"
  from a have tx: "?inst ''text'' = Some (JStr t)" and len: "length t \<le> 255"
    and lst: "?inst ''listId'' = Some (JNum (Fin k))" and rng: "inIntRange k"
    and ex: "list_ex (hasId k) (rows st List)"
    and noid: "body ''id'' = None \<or> body ''id'' = Some JNull"
    by (simp_all add: plainToInstance_apply convertDueDate_other)
  from a have "body ''description'' = None \<or> body ''description'' = Some JNull
      \<or> (\<exists>ds. body ''description'' = Some (JStr ds) \<and> utf8Length ds \<le> 65535)"
    by simp
  then obtain c where
    dsc: "columnValue st dp SqlText False None None (?inst ''description'') = Some c"
    and dscv: "validateProperty ?inst (''description'', IsString, True) = []"
    by (auto simp: plainToInstance_apply convertDueDate_other defaults_def columnValue_insert
        utf8Length_def validateProperty_def satisfies_def)
  from a have "body ''completed'' = None \<or> body ''completed'' = Some JNull
      \<or> (\<exists>b. body ''completed'' = Some (JBool b))"
    by simp
  then obtain f where
    cmp: "columnValue st dp SqlBoolean False (Some (JBool False)) None (?inst ''completed'') = Some f"
    and cmpv: "validateProperty ?inst (''completed'', IsBoolean, True) = []"
    by (auto simp: plainToInstance_apply convertDueDate_other defaults_def columnValue_insert
        validateProperty_def satisfies_def)
  from a have "body ''dueDate'' = None \<and> due = JDate (Fin 0) \<and> stored = JDate (Fin 0)
      \<or> body ''dueDate'' = Some JNull \<and> due = JNull \<and> stored = JNull
      \<or> (\<exists>d. body ''dueDate'' = Some v \<and> truthy v \<and> newDate dp v = JDate (Fin d)
            \<and> inDateTimeRange d
            \<and> due = JDate (Fin d) \<and> stored = JDate (Fin (wholeSeconds d)))"
    by simp
  then have dd: "?inst ''dueDate'' = Some due"
    and ddc: "columnValue st dp SqlDateTime False None None (?inst ''dueDate'') = Some stored"
    and ddv: "validateProperty ?inst (''dueDate'', IsDate, True) = []"
    by (auto simp: plainToInstance_apply convertDueDate_dueDate defaults_def columnValue_insert
        truthy_def inDateTimeRange_def wholeSeconds_def validateProperty_def satisfies_def
        isNaN_def)
  have valid: "validate Task ?inst = []"
    using rng
    by (simp add: validate_Task_parts dscv cmpv ddv)
      (simp add: validateProperty_def satisfies_def tx lst inIntRange_def)
  have row: "buildRow st dp None (tableColumns Task) ?inst =
      Some [''completed'' \<mapsto> f, ''dueDate'' \<mapsto> stored, ''description'' \<mapsto> c,
            ''text'' \<mapsto> JStr t, ''listId'' \<mapsto> JNum (Fin k)]"
    using len rng by (simp add: buildRow_Task tx lst dsc cmp ddc columnValue_insert)
  have fk: "fkHolds Task [''completed'' \<mapsto> f, ''dueDate'' \<mapsto> stored, ''description'' \<mapsto> c,
            ''text'' \<mapsto> JStr t, ''listId'' \<mapsto> JNum (Fin k)] (rows st)"
    using ex by (rule fkHolds_Task) simp
  show "\<exists>ent st'. handle dp (PostTask body) st = (respond 201 (Entity ent), st')
            \<and> ent ''dueDate'' = Some due
            \<and> map (\<lambda>r. r ''dueDate'') (rows st' Task) =
                map (\<lambda>r. r ''dueDate'') (rows st Task) @ [Some stored]"
    unfolding post_tasks_creates [OF valid noid row fk]
    by (intro exI conjI, rule refl) (simp_all add: withId_def dd)
qed

text \<open>
  The amended claim C2 on the example store: an unparseable string and the empty string;
  no due date; \<^verbatim>\<open>null\<close>; an ISO date; and a time value with milliseconds, in a body
  that also has a description and \<^verbatim>\<open>completed\<close>.
\<close>

theorem create_task_converts_or_rejects_dueDate_witness:
  "(\<exists>cs. handle exampleDateParse
        (PostTask [''listId'' \<mapsto> JNum (Fin 1), ''text'' \<mapsto> JStr ''Buy milk'',
                   ''dueDate'' \<mapsto> JStr ''not a date'']) exampleStore =
        (respond 400 (Constraints cs), exampleStore))
   \<and> (\<exists>cs. handle exampleDateParse
        (PostTask [''listId'' \<mapsto> JNum (Fin 1), ''text'' \<mapsto> JStr ''Buy milk'',
                   ''dueDate'' \<mapsto> JStr []]) exampleStore =
        (respond 400 (Constraints cs), exampleStore))
   \<and> (\<exists>ent st'. handle exampleDateParse
        (PostTask [''listId'' \<mapsto> JNum (Fin 1), ''text'' \<mapsto> JStr ''Buy milk'']) exampleStore =
        (respond 201 (Entity ent), st') \<and> ent ''dueDate'' = Some (JDate (Fin 0))
        \<and> map (\<lambda>r. r ''dueDate'') (rows st' Task) =
            [Some (JDate (Fin 0)), Some (JDate (Fin 1729411200000)), Some (JDate (Fin 0))])
   \<and> (\<exists>ent st'. handle exampleDateParse
        (PostTask [''listId'' \<mapsto> JNum (Fin 1), ''text'' \<mapsto> JStr ''Buy milk'',
                   ''dueDate'' \<mapsto> JNull]) exampleStore =
        (respond 201 (Entity ent), st') \<and> ent ''dueDate'' = Some JNull
        \<and> map (\<lambda>r. r ''dueDate'') (rows st' Task) =
            [Some (JDate (Fin 0)), Some (JDate (Fin 1729411200000)), Some JNull])
   \<and> (\<exists>ent st'. handle exampleDateParse
        (PostTask [''listId'' \<mapsto> JNum (Fin 1), ''text'' \<mapsto> JStr ''Buy milk'',
                   ''dueDate'' \<mapsto> JStr ''2024-10-15T14:48:00.000Z'']) exampleStore =
        (respond 201 (Entity ent), st') \<and> ent ''dueDate'' = Some (JDate (Fin 1729003680000))
        \<and> map (\<lambda>r. r ''dueDate'') (rows st' Task) =
            [Some (JDate (Fin 0)), Some (JDate (Fin 1729411200000)),
             Some (JDate (Fin 1729003680000))])
   \<and> (\<exists>ent st'. handle exampleDateParse
        (PostTask [''listId'' \<mapsto> JNum (Fin 1), ''text'' \<mapsto> JStr ''Buy milk'',
                   ''description'' \<mapsto> JStr ''2 l'', ''completed'' \<mapsto> JBool True,
                   ''dueDate'' \<mapsto> JNum (Fin 1729003680123)]) exampleStore =
        (respond 201 (Entity ent), st') \<and> ent ''dueDate'' = Some (JDate (Fin 1729003680123))
        \<and> map (\<lambda>r. r ''dueDate'') (rows st' Task) =
            [Some (JDate (Fin 0)), Some (JDate (Fin 1729411200000)),
             Some (JDate (Fin 1729003680000))])"
proof -
  have l: "list_ex (hasId 1) (rows exampleStore List)"
    by (simp add: exampleStore_def hasId_def)
  have r: "inIntRange 1" by (simp add: inIntRange_def isInteger_def)
  have p1: "newDate exampleDateParse (JStr ''not a date'') = JDate NaN"
    by (simp add: newDate_def exampleDateParse_def TimeClip_def)
  have p2: "newDate exampleDateParse (JStr ''2024-10-15T14:48:00.000Z'') = JDate (Fin 1729003680000)"
    by (simp add: newDate_def exampleDateParse_def TimeClip_def)
  have p3: "newDate exampleDateParse (JNum (Fin 1729003680123)) = JDate (Fin 1729003680123)"
    by (simp add: newDate_def TimeClip_def)
  have w: "inDateTimeRange 1729003680000" "wholeSeconds 1729003680000 = 1729003680000"
      "inDateTimeRange 1729003680123" "wholeSeconds 1729003680123 = 1729003680000"
  proof -
    have "\<lfloor>(1729003680123::rat) / 1000\<rfloor> = 1729003680" by linarith
    then show "inDateTimeRange 1729003680000" "wholeSeconds 1729003680000 = 1729003680000"
      "inDateTimeRange 1729003680123" "wholeSeconds 1729003680123 = 1729003680000"
      by (simp_all add: inDateTimeRange_def wholeSeconds_def)
  qed
  have u: "utf8Length ''2 l'' \<le> 65535" by (simp add: utf8Length_def)
  have c1: "\<exists>cs. handle exampleDateParse
        (PostTask [''listId'' \<mapsto> JNum (Fin 1), ''text'' \<mapsto> JStr ''Buy milk'',
                   ''dueDate'' \<mapsto> JStr ''not a date'']) exampleStore =
        (respond 400 (Constraints cs), exampleStore)"
    using create_task_converts_or_rejects_dueDate
        [where dp = exampleDateParse and st = exampleStore and v = "JStr ''not a date''"
          and body = "[''listId'' \<mapsto> JNum (Fin 1), ''text'' \<mapsto> JStr ''Buy milk'',
                       ''dueDate'' \<mapsto> JStr ''not a date'']"]
    by (simp add: p1 del: handle.simps) blast
  have c2: "\<exists>cs. handle exampleDateParse
        (PostTask [''listId'' \<mapsto> JNum (Fin 1), ''text'' \<mapsto> JStr ''Buy milk'',
                   ''dueDate'' \<mapsto> JStr []]) exampleStore =
        (respond 400 (Constraints cs), exampleStore)"
    using create_task_converts_or_rejects_dueDate
        [where dp = exampleDateParse and st = exampleStore and v = "JStr []"
          and body = "[''listId'' \<mapsto> JNum (Fin 1), ''text'' \<mapsto> JStr ''Buy milk'',
                       ''dueDate'' \<mapsto> JStr []]"]
    by (simp add: truthy_def del: handle.simps) blast
  have c3: "\<exists>ent st'. handle exampleDateParse
        (PostTask [''listId'' \<mapsto> JNum (Fin 1), ''text'' \<mapsto> JStr ''Buy milk'']) exampleStore =
        (respond 201 (Entity ent), st') \<and> ent ''dueDate'' = Some (JDate (Fin 0))
        \<and> map (\<lambda>r. r ''dueDate'') (rows st' Task) =
            [Some (JDate (Fin 0)), Some (JDate (Fin 1729411200000)), Some (JDate (Fin 0))]"
    using create_task_converts_or_rejects_dueDate
        [where dp = exampleDateParse and st = exampleStore and t = "''Buy milk''" and k = 1
          and due = "JDate (Fin 0)" and stored = "JDate (Fin 0)"
          and body = "[''listId'' \<mapsto> JNum (Fin 1), ''text'' \<mapsto> JStr ''Buy milk'']"]
    by (simp add: l r ex_rows_Task del: handle.simps)
  have c4: "\<exists>ent st'. handle exampleDateParse
        (PostTask [''listId'' \<mapsto> JNum (Fin 1), ''text'' \<mapsto> JStr ''Buy milk'',
                   ''dueDate'' \<mapsto> JNull]) exampleStore =
        (respond 201 (Entity ent), st') \<and> ent ''dueDate'' = Some JNull
        \<and> map (\<lambda>r. r ''dueDate'') (rows st' Task) =
            [Some (JDate (Fin 0)), Some (JDate (Fin 1729411200000)), Some JNull]"
    using create_task_converts_or_rejects_dueDate
        [where dp = exampleDateParse and st = exampleStore and t = "''Buy milk''" and k = 1
          and due = JNull and stored = JNull
          and body = "[''listId'' \<mapsto> JNum (Fin 1), ''text'' \<mapsto> JStr ''Buy milk'',
                       ''dueDate'' \<mapsto> JNull]"]
    by (simp add: l r ex_rows_Task del: handle.simps)
  have c5: "\<exists>ent st'. handle exampleDateParse
        (PostTask [''listId'' \<mapsto> JNum (Fin 1), ''text'' \<mapsto> JStr ''Buy milk'',
                   ''dueDate'' \<mapsto> JStr ''2024-10-15T14:48:00.000Z'']) exampleStore =
        (respond 201 (Entity ent), st') \<and> ent ''dueDate'' = Some (JDate (Fin 1729003680000))
        \<and> map (\<lambda>r. r ''dueDate'') (rows st' Task) =
            [Some (JDate (Fin 0)), Some (JDate (Fin 1729411200000)),
             Some (JDate (Fin 1729003680000))]"
    using create_task_converts_or_rejects_dueDate
        [where dp = exampleDateParse and st = exampleStore and t = "''Buy milk''" and k = 1
          and v = "JStr ''2024-10-15T14:48:00.000Z''"
          and due = "JDate (Fin 1729003680000)" and stored = "JDate (Fin 1729003680000)"
          and body = "[''listId'' \<mapsto> JNum (Fin 1), ''text'' \<mapsto> JStr ''Buy milk'',
                       ''dueDate'' \<mapsto> JStr ''2024-10-15T14:48:00.000Z'']",
          THEN conjunct2, THEN conjunct2]
    by (simp add: l r p2 w truthy_def ex_rows_Task del: handle.simps)
  have c6: "\<exists>ent st'. handle exampleDateParse
        (PostTask [''listId'' \<mapsto> JNum (Fin 1), ''text'' \<mapsto> JStr ''Buy milk'',
                   ''description'' \<mapsto> JStr ''2 l'', ''completed'' \<mapsto> JBool True,
                   ''dueDate'' \<mapsto> JNum (Fin 1729003680123)]) exampleStore =
        (respond 201 (Entity ent), st') \<and> ent ''dueDate'' = Some (JDate (Fin 1729003680123))
        \<and> map (\<lambda>r. r ''dueDate'') (rows st' Task) =
            [Some (JDate (Fin 0)), Some (JDate (Fin 1729411200000)),
             Some (JDate (Fin 1729003680000))]"
    using create_task_converts_or_rejects_dueDate
        [where dp = exampleDateParse and st = exampleStore and t = "''Buy milk''" and k = 1
          and v = "JNum (Fin 1729003680123)"
          and due = "JDate (Fin 1729003680123)" and stored = "JDate (Fin 1729003680000)"
          and body = "[''listId'' \<mapsto> JNum (Fin 1), ''text'' \<mapsto> JStr ''Buy milk'',
                   ''description'' \<mapsto> JStr ''2 l'', ''completed'' \<mapsto> JBool True,
                   ''dueDate'' \<mapsto> JNum (Fin 1729003680123)]",
          THEN conjunct2, THEN conjunct2]
    by (simp add: l r p3 w u truthy_def ex_rows_Task del: handle.simps) blast
  from c1 c2 c3 c4 c5 c6 show ?thesis by (intro conjI)
qed

section \<open>The name of a new user\<close>

text \<open>
  Claim C3 says that the empty name is rejected. It is not: \<^verbatim>\<open>@IsString()\<close> accepts
  the empty string, and \<^verbatim>\<open>POST /api/users\<close> with \<^verbatim>\<open>{name: ""}\<close> is answered with 201
  and stores a user with the empty name.
\<close>

theorem empty_name_is_accepted:
  "status (fst (handle exampleDateParse (PostUser [''name'' \<mapsto> JStr '''']) exampleStore)) = 201
   \<and> rows (snd (handle exampleDateParse (PostUser [''name'' \<mapsto> JStr '''']) exampleStore)) User =
       [[''id'' \<mapsto> JNum (Fin 1), ''name'' \<mapsto> JStr ''Alice''],
        [''id'' \<mapsto> JNum (Fin 2), ''name'' \<mapsto> JStr ''Bob''],
        [''name'' \<mapsto> JStr '''', ''id'' \<mapsto> JNum (Fin 3)]]"
  by (simp add: model_defs ex_rows_User ex_nextId)

text \<open>
  Claim C3, amended. When \<^verbatim>\<open>name\<close> is missing or is not a string, create-user
  answers 400 with the one constraint message "name must be a string" and the store is
  left as it was. When \<^verbatim>\<open>name\<close> is a string of at most 100 characters, the empty
  string included, and the body has no \<^verbatim>\<open>id\<close>, the user is inserted under the next
  generated id and returned with 201.
\<close>

theorem create_user_requires_a_string_name:
  "((\<forall>s. body ''name'' \<noteq> Some (JStr s)) \<longrightarrow>
      handle dp (PostUser body) st =
        (respond 400 (Constraints [[(''isString'', ''name must be a string'')]]), st))
   \<and> (body ''name'' = Some (JStr s) \<and> length s \<le> 100 \<and> body ''id'' = None \<longrightarrow>
      handle dp (PostUser body) st =
        (respond 201 (Entity (withId (plainToInstance User body) (of_int (nextId st User)))),
         st\<lparr>rows := (rows st)(User := rows st User @
                  [[''name'' \<mapsto> JStr s, ''id'' \<mapsto> JNum (Fin (of_int (nextId st User)))]]),
            nextId := (nextId st)(User := nextId st User + 1),
            queries := queries st @ [Save User (plainToInstance User body)]\<rparr>))"
proof (intro conjI impI)
  assume "\<forall>s. body ''name'' \<noteq> Some (JStr s)"
  then show "handle dp (PostUser body) st =
      (respond 400 (Constraints [[(''isString'', ''name must be a string'')]]), st)"
    by (simp add: post_users_def Let_def validateEntity_def validate_User plainToInstance_apply
        defaults_def respond_def split: option.splits jsval.splits)
next
  assume a: "body ''name'' = Some (JStr s) \<and> length s \<le> 100 \<and> body ''id'' = None"
  then have inst: "plainToInstance User body ''name'' = Some (JStr s)"
      "plainToInstance User body ''id'' = None"
    by (simp_all add: plainToInstance_apply defaults_def)
  show "handle dp (PostUser body) st =
      (respond 201 (Entity (withId (plainToInstance User body) (of_int (nextId st User)))),
       st\<lparr>rows := (rows st)(User := rows st User @
                [[''name'' \<mapsto> JStr s, ''id'' \<mapsto> JNum (Fin (of_int (nextId st User)))]]),
          nextId := (nextId st)(User := nextId st User + 1),
          queries := queries st @ [Save User (plainToInstance User body)]\<rparr>)"
  proof -
    from a have row: "buildRow st dp None (tableColumns User) (plainToInstance User body) =
        Some [''name'' \<mapsto> JStr s]"
      by (simp add: buildRow_User inst)
    have fk: "fkHolds User [''name'' \<mapsto> JStr s] (rows st)"
      by (simp add: fkHolds_def foreignKey_def)
    show ?thesis
      by (simp add: post_users_def Let_def validateEntity_def validate_User inst
          repo_save_inserts [OF disjI1 [OF inst(2)] row fk] withId_def)
  qed
qed

text \<open>
  The amended claim C3 on the example store: a number as name, no name, and a name.
\<close>

theorem create_user_requires_a_string_name_witness:
  "handle exampleDateParse (PostUser [''name'' \<mapsto> JNum (Fin 5)]) exampleStore =
     (respond 400 (Constraints [[(''isString'', ''name must be a string'')]]), exampleStore)
   \<and> handle exampleDateParse (PostUser Map.empty) exampleStore =
     (respond 400 (Constraints [[(''isString'', ''name must be a string'')]]), exampleStore)
   \<and> status (fst (handle exampleDateParse (PostUser [''name'' \<mapsto> JStr ''Carol'']) exampleStore)) = 201
   \<and> rows (snd (handle exampleDateParse (PostUser [''name'' \<mapsto> JStr ''Carol'']) exampleStore)) User =
       rows exampleStore User @ [[''name'' \<mapsto> JStr ''Carol'', ''id'' \<mapsto> JNum (Fin 3)]]"
proof -
  have n: "nextId exampleStore User = 3" by (simp add: exampleStore_def)
  show ?thesis
    using create_user_requires_a_string_name
        [where dp = exampleDateParse and st = exampleStore and body = "[''name'' \<mapsto> JNum (Fin 5)]"]
      create_user_requires_a_string_name
        [where dp = exampleDateParse and st = exampleStore and body = "Map.empty"]
      create_user_requires_a_string_name
        [where dp = exampleDateParse and st = exampleStore and s = "''Carol''"
          and body = "[''name'' \<mapsto> JStr ''Carol'']"]
    by (simp add: n respond_def del: handle.simps)
qed

section \<open>An id in the body of a create request\<close>

text \<open>
  Claim C4 says that an \<^verbatim>\<open>id\<close> in the body of a create request is never used. The
  handlers do not remove it: \<^verbatim>\<open>plainToInstance\<close> copies it onto the entity and
  \<^verbatim>\<open>save\<close> then writes the row with that key. Here \<^verbatim>\<open>POST /api/users\<close> with
  \<^verbatim>\<open>{id: 1, name: "Mallory"}\<close> is answered with 201, no row is added, and the stored
  user 1, Alice, now has the name Mallory.
\<close>

theorem body_id_overwrites_existing_user:
  "status (fst (handle exampleDateParse
      (PostUser [''id'' \<mapsto> JNum (Fin 1), ''name'' \<mapsto> JStr ''Mallory'']) exampleStore)) = 201
   \<and> rows exampleStore User =
       [[''id'' \<mapsto> JNum (Fin 1), ''name'' \<mapsto> JStr ''Alice''],
        [''id'' \<mapsto> JNum (Fin 2), ''name'' \<mapsto> JStr ''Bob'']]
   \<and> rows (snd (handle exampleDateParse
      (PostUser [''id'' \<mapsto> JNum (Fin 1), ''name'' \<mapsto> JStr ''Mallory'']) exampleStore)) User =
       [[''name'' \<mapsto> JStr ''Mallory'', ''id'' \<mapsto> JNum (Fin 1)],
        [''id'' \<mapsto> JNum (Fin 2), ''name'' \<mapsto> JStr ''Bob'']]"
  by (simp add: model_defs ex_rows_User ex_nextId)

section \<open>What an update keeps and what it overwrites\<close>

text \<open>
  Claim C8 says that a successful update overwrites, in the stored record, the fields
  that the body names and keeps the others. The update handlers pass the whole body to
  \<^verbatim>\<open>merge\<close>, which copies \<^verbatim>\<open>id\<close> with the other columns, and \<^verbatim>\<open>save\<close> then writes
  the row that has the key of the merged record, which need not be the row that the path
  addresses. Here \<^verbatim>\<open>PUT /api/users/1\<close> with \<^verbatim>\<open>{id: 2, name: "Zed"}\<close> is answered with
  200: user 1, the stored record of the request, keeps the name Alice that the body
  was to overwrite, and user 2 is renamed from Bob to Zed.
\<close>

theorem update_with_body_id_writes_another_record:
  "status (fst (handle exampleDateParse
      (PutUser ''1'' [''id'' \<mapsto> JNum (Fin 2), ''name'' \<mapsto> JStr ''Zed'']) exampleStore)) = 200
   \<and> rows exampleStore User =
       [[''id'' \<mapsto> JNum (Fin 1), ''name'' \<mapsto> JStr ''Alice''],
        [''id'' \<mapsto> JNum (Fin 2), ''name'' \<mapsto> JStr ''Bob'']]
   \<and> rows (snd (handle exampleDateParse
      (PutUser ''1'' [''id'' \<mapsto> JNum (Fin 2), ''name'' \<mapsto> JStr ''Zed'']) exampleStore)) User =
       [[''id'' \<mapsto> JNum (Fin 1), ''name'' \<mapsto> JStr ''Alice''],
        [''name'' \<mapsto> JStr ''Zed'', ''id'' \<mapsto> JNum (Fin 2)]]"
proof -
  have n1: "Number ''1'' = Fin 1" by code_simp
  have v1: "validateIdParam ''1'' = None"
    by (simp add: validateIdParam_def n1 isNaN_def le_zero_def)
  have f: "repo_findOneBy User (Fin 1) exampleStore =
      (Inr (Some [''id'' \<mapsto> JNum (Fin 1), ''name'' \<mapsto> JStr ''Alice'']),
       issue (FindOneBy User (Fin 1)) exampleStore)"
    by (rule repo_findOneBy_eq [OF example_find_user_1])
  show ?thesis
    by (simp add: afterIdCheck_def v1 put_users_id_def n1 f repo_merge_apply columns_def
        model_defs ex_rows_User)
qed

end
